theory Spec2Isabelle
  imports Complex_Main
begin

section \<open>The speed test analyzer of \<^verbatim>\<open>src/app.js\<close>\<close>

text \<open>
  The class \<^verbatim>\<open>SpeedTestAnalyzer\<close> keeps the running flag, the three series of the
  chart, the session statistics and the configuration in its fields. Its methods are
  embedded as functions on a record of these fields. JavaScript numbers are doubles: they
  are modelled as the real numbers they denote, and every arithmetic operation of the
  source rounds its exact result to the nearest double (\<open>fl\<close> below). The styling of the speed test
  (progress bar, gauges, buttons, status labels) is presentation and is left out; the
  network information panel, which is what \<^verbatim>\<open>loadNetworkInfo\<close> produces, is modelled
  further below.
\<close>

subsection \<open>Numbers\<close>

text \<open>
  A double has a significand of 53 bits. In the binade from \<open>2 powi k\<close> up to, not
  including, \<open>2 powi (k + 1)\<close> the doubles are the multiples of \<open>2 powi (k - 52)\<close>, with
  \<open>k\<close> at least \<open>-1022\<close> (below that are the subnormal numbers, with the same spacing as
  the lowest binade). An operation returns the double nearest to its exact result, the
  one with the even significand when two are equally near. Results of magnitude
  \<open>2 powi 1024\<close> and more, which are \<^verbatim>\<open>Infinity\<close> in the language, and \<^verbatim>\<open>NaN\<close> are not
  modelled; where a division by zero of the source produces them, the model says so.
\<close>

definition round_even :: "real \<Rightarrow> int" where
  "round_even q =
     (let f = \<lfloor>q\<rfloor>; r = q - real_of_int f
      in if r < 1 / 2 then f
         else if r > 1 / 2 then f + 1
         else if even f then f else f + 1)"

text \<open>The exponent of the binade of \<open>x\<close>, searched upwards from the lowest.\<close>

fun exponent_from :: "nat \<Rightarrow> int \<Rightarrow> real \<Rightarrow> int" where
  "exponent_from 0 k x = k"
| "exponent_from (Suc n) k x =
     (if \<bar>x\<bar> < 2 powi (k + 1) then k else exponent_from n (k + 1) x)"

definition exponent :: "real \<Rightarrow> int" where
  "exponent x = exponent_from 2045 (- 1022) x"

definition fl :: "real \<Rightarrow> real" where
  "fl x = (let q = 2 powi (exponent x - 52) in real_of_int (round_even (x / q)) * q)"

subsection \<open>State\<close>

record test_data =
  download :: "real list"
  upload :: "real list"
  timestamps :: "string list"

record statistics =
  testsRun :: nat
  totalDownload :: real
  totalUpload :: real
  maxDownload :: real
  maxUpload :: real

record configuration =
  testDuration :: nat
  updateInterval :: nat
  maxDataPoints :: nat

text \<open>What the chart shows: \<^verbatim>\<open>chart.data.labels\<close> and the data of its two datasets.\<close>

record chart_data =
  labels :: "string list"
  dataset0 :: "real list"
  dataset1 :: "real list"

text \<open>A call of \<^verbatim>\<open>showStatus(message, type)\<close>.\<close>

type_synonym notification = "string \<times> string"

text \<open>
  An element of the page, as far as the network information panel uses it: its
  \<^verbatim>\<open>textContent\<close>, the tokens of its \<^verbatim>\<open>classList\<close> and its \<^verbatim>\<open>style.color\<close>. The page is
  not among the sources; every identifier the code looks up is taken to name an element,
  so that \<^verbatim>\<open>getElementById\<close> never returns \<^verbatim>\<open>null\<close>.
\<close>

record element =
  textContent :: string
  classList :: "string list"
  color :: string

record analyzer =
  isTestRunning :: bool
  testData :: test_data
  stats :: statistics
  chart :: chart_data
  config :: configuration
  notifications :: "notification list"
  page :: "string \<Rightarrow> element"

text \<open>
  The fields as the constructor assigns them, before it calls \<^verbatim>\<open>initialize\<close>, on a page
  whose elements are still empty.
\<close>

definition initial :: analyzer where
  "initial =
     \<lparr>isTestRunning = False,
      testData = \<lparr>download = [], upload = [], timestamps = []\<rparr>,
      stats = \<lparr>testsRun = 0, totalDownload = 0, totalUpload = 0, maxDownload = 0, maxUpload = 0\<rparr>,
      chart = \<lparr>labels = [], dataset0 = [], dataset1 = []\<rparr>,
      config = \<lparr>testDuration = 10000, updateInterval = 200, maxDataPoints = 20\<rparr>,
      notifications = [],
      page = (\<lambda>i. \<lparr>textContent = [], classList = [], color = []\<rparr>)\<rparr>"

text \<open>A JavaScript \<^verbatim>\<open>Error\<close> with its message.\<close>

datatype error = Error string

text \<open>
  How a block that may throw ends: it returns, or it throws with the state as the
  throw leaves it.
\<close>

datatype 's result = Done 's | Raised error 's

definition showStatus :: "string \<Rightarrow> string \<Rightarrow> analyzer \<Rightarrow> analyzer" where
  "showStatus message kind a = a\<lparr>notifications := notifications a @ [(message, kind)]\<rparr>"

subsection \<open>The rolling series\<close>

text \<open>\<^verbatim>\<open>Math.round(y)\<close> is the integer nearest to \<open>y\<close>, a half rounded up.\<close>

definition js_round :: "real \<Rightarrow> int" where
  "js_round y = \<lfloor>y + 1 / 2\<rfloor>"

text \<open>
  \<^verbatim>\<open>Math.round(speed * 100) / 100\<close>, the value both update methods store: the product and
  the quotient are rounded to doubles, \<^verbatim>\<open>Math.round\<close> is exact.
\<close>

definition displaySpeed :: "real \<Rightarrow> real" where
  "displaySpeed speed = fl (real_of_int (js_round (fl (speed * 100))) / 100)"

text \<open>
  \<^verbatim>\<open>Array.prototype.shift\<close> removes the first element and leaves an empty array empty,
  which is \<^const>\<open>tl\<close>. \<^verbatim>\<open>updateChart\<close> tests the length of the timestamps only, shifts
  the timestamps and the download series, shifts the upload series when it is not
  empty, and hands the three arrays to the chart.
\<close>

definition updateChart :: "analyzer \<Rightarrow> analyzer" where
  "updateChart a =
     (let d = testData a;
          d' = (if length (timestamps d) > maxDataPoints (config a)
                then d\<lparr>timestamps := tl (timestamps d),
                       download := tl (download d),
                       upload := (if length (upload d) > 0 then tl (upload d) else upload d)\<rparr>
                else d)
      in a\<lparr>testData := d',
            chart := \<lparr>labels = timestamps d', dataset0 = download d', dataset1 = upload d'\<rparr>\<rparr>)"

text \<open>
  \<^verbatim>\<open>updateDownloadSpeed(speed)\<close>; \<open>stamp\<close> is the string that
  \<^verbatim>\<open>new Date().toLocaleTimeString()\<close> returns at the call.
\<close>

definition updateDownloadSpeed :: "real \<Rightarrow> string \<Rightarrow> analyzer \<Rightarrow> analyzer" where
  "updateDownloadSpeed speed stamp a =
     (let d = testData a
      in updateChart
           (a\<lparr>testData := d\<lparr>download := download d @ [displaySpeed speed],
                               timestamps := timestamps d @ [stamp]\<rparr>\<rparr>))"

definition updateUploadSpeed :: "real \<Rightarrow> analyzer \<Rightarrow> analyzer" where
  "updateUploadSpeed speed a =
     (let d = testData a
      in updateChart (a\<lparr>testData := d\<lparr>upload := upload d @ [displaySpeed speed]\<rparr>\<rparr>))"

definition resetTestUI :: "analyzer \<Rightarrow> analyzer" where
  "resetTestUI a =
     a\<lparr>testData := \<lparr>download = [], upload = [], timestamps = []\<rparr>,
       chart := \<lparr>labels = [], dataset0 = [], dataset1 = []\<rparr>\<rparr>"

text \<open>The three ways in which the series change, and a run of them.\<close>

datatype series_op = PushDownload real string | PushUpload real | Reset

fun apply_series_op :: "series_op \<Rightarrow> analyzer \<Rightarrow> analyzer" where
  "apply_series_op (PushDownload v stamp) a = updateDownloadSpeed v stamp a"
| "apply_series_op (PushUpload v) a = updateUploadSpeed v a"
| "apply_series_op Reset a = resetTestUI a"

definition run_series_ops :: "series_op list \<Rightarrow> analyzer \<Rightarrow> analyzer" where
  "run_series_ops ops a = fold apply_series_op ops a"

definition push_downloads :: "(real \<times> string) list \<Rightarrow> analyzer \<Rightarrow> analyzer" where
  "push_downloads vs a = fold (\<lambda>(v, stamp). updateDownloadSpeed v stamp) vs a"

definition push_uploads :: "real list \<Rightarrow> analyzer \<Rightarrow> analyzer" where
  "push_uploads vs a = fold updateUploadSpeed vs a"

text \<open>The \<open>C\<close> last elements of a list, all of it when it is shorter.\<close>

definition newest :: "nat \<Rightarrow> 'a list \<Rightarrow> 'a list" where
  "newest C xs = drop (length xs - C) xs"

text \<open>
  The download series and the timestamps have the same length, and the chart shows
  them.
\<close>

definition chart_in_step :: "analyzer \<Rightarrow> bool" where
  "chart_in_step a =
     (length (download (testData a)) = length (timestamps (testData a)) \<and>
      labels (chart a) = timestamps (testData a) \<and>
      dataset0 (chart a) = download (testData a))"

subsection \<open>The timed sampling loops\<close>

text \<open>
  What the network and the clocks do is the input of the model. One \<open>event\<close> describes
  one iteration of a sampling loop: how the probe of the iteration ends (the promise of
  \<^verbatim>\<open>fetchWithTimeout\<close> or the read of the body rejects with an error, a timeout being
  \<^verbatim>\<open>Error('timeout')\<close>, or a response arrives), by how many milliseconds \<^verbatim>\<open>Date.now()\<close>
  advances while the probe is awaited, the difference \<^verbatim>\<open>testEnd - testStart\<close> of the two
  readings of \<^verbatim>\<open>performance.now()\<close>, the value of \<^verbatim>\<open>Math.random()\<close>, and whether the user
  stops the test while the iteration is suspended. Computation takes no time and a timer
  fires exactly after its delay.
\<close>

record response =
  ok :: bool
  status :: nat
  byteLength :: nat

record event =
  fetched :: "error + response"
  wall_ms :: nat
  perf_ms :: real
  rnd :: real
  stop_clicked :: bool

record world =
  events :: "nat \<Rightarrow> event"
  time_string :: "nat \<Rightarrow> string"

text \<open>
  A run of the analyzer in a world: the object, the value of \<^verbatim>\<open>Date.now()\<close> and the
  number of events consumed so far.
\<close>

record run =
  app :: analyzer
  clock :: nat
  tick :: nat

text \<open>The decimal numeral of a natural number, for the message of an HTTP error.\<close>

fun show_nat :: "nat \<Rightarrow> string" where
  "show_nat n =
     (if n < 10 then [char_of (48 + n)]
      else show_nat (n div 10) @ [char_of (48 + n mod 10)])"

declare show_nat.simps [simp del]

text \<open>\<^verbatim>\<open>xs.reduce((a, b) => a + b, 0)\<close>\<close>

definition js_sum :: "real list \<Rightarrow> real" where
  "js_sum xs = fold (\<lambda>b a. fl (a + b)) xs 0"

text \<open>\<^verbatim>\<open>(bytes * 8) / (1024 * 1024 * seconds)\<close> with \<^verbatim>\<open>seconds = (testEnd - testStart) / 1000\<close>\<close>

definition mbps_of :: "nat \<Rightarrow> real \<Rightarrow> real" where
  "mbps_of bytes ms = fl (fl (real bytes * 8) / fl (fl (1024 * 1024) * fl (ms / 1000)))"

text \<open>
  The sanity check \<^verbatim>\<open>mbps > 0 && mbps < 1000\<close>. When no time has elapsed the division
  of the source gives \<^verbatim>\<open>Infinity\<close> or \<^verbatim>\<open>NaN\<close>, and both fail the check. (So does the
  \<^verbatim>\<open>Infinity\<close> of a time so short that the seconds or the quotient leave the range of the
  doubles: there the quotient of the model is 0 or at least 1000.)
\<close>

definition sane :: "nat \<Rightarrow> real \<Rightarrow> bool" where
  "sane bytes ms = (ms \<noteq> 0 \<and> mbps_of bytes ms > 0 \<and> mbps_of bytes ms < 1000)"

definition stopSpeedTest :: "analyzer \<Rightarrow> analyzer" where
  "stopSpeedTest a = a\<lparr>isTestRunning := False\<rparr>"

text \<open>
  The \<^verbatim>\<open>try\<close> block of one download iteration, at the clock value \<open>now\<close> at which the
  body has been read. The random size that the source requests is only part of the URL:
  the length of the body is the one of the response.
\<close>

definition download_probe ::
  "world \<Rightarrow> event \<Rightarrow> nat \<Rightarrow> real list \<times> analyzer \<Rightarrow> error + real list \<times> analyzer" where
  "download_probe w e now sa =
     (case fetched e of
        Inl err \<Rightarrow> Inl err
      | Inr resp \<Rightarrow>
          if \<not> ok resp then Inl (Error (''HTTP '' @ show_nat (status resp)))
          else
            let mbps = mbps_of (byteLength resp) (perf_ms e)
            in if sane (byteLength resp) (perf_ms e)
               then Inr (fst sa @ [mbps], updateDownloadSpeed mbps (time_string w now) (snd sa))
               else Inr sa)"

text \<open>
  The \<^verbatim>\<open>try\<close> block of one upload iteration. The payload has
  \<^verbatim>\<open>Math.floor(Math.random() * 50000) + 25000\<close> characters.
\<close>

definition testDataSize :: "real \<Rightarrow> nat" where
  "testDataSize r = nat \<lfloor>fl (r * 50000)\<rfloor> + 25000"

definition upload_probe :: "event \<Rightarrow> real list \<times> analyzer \<Rightarrow> error + real list \<times> analyzer" where
  "upload_probe e sa =
     (case fetched e of
        Inl err \<Rightarrow> Inl err
      | Inr resp \<Rightarrow>
          if \<not> ok resp then Inl (Error (''HTTP '' @ show_nat (status resp)))
          else
            let bytes = testDataSize (rnd e);
                mbps = mbps_of bytes (perf_ms e)
            in if sane bytes (perf_ms e)
               then Inr (fst sa @ [mbps], updateUploadSpeed mbps (snd sa))
               else Inr sa)"

text \<open>
  One iteration of a loop: the \<^verbatim>\<open>try\<close> block, whose error the \<^verbatim>\<open>catch\<close> only logs, and
  the sleep of \<^verbatim>\<open>updateInterval\<close> milliseconds, during which a click on the stop button
  is served. The first component of the pair is the local array of accepted speeds.
\<close>

definition finish_iteration :: "event \<Rightarrow> nat \<Rightarrow> run \<Rightarrow> real list \<times> analyzer \<Rightarrow> real list \<times> run" where
  "finish_iteration e now r sa =
     (fst sa,
      \<lparr>app = (if stop_clicked e then stopSpeedTest (snd sa) else snd sa),
       clock = now + updateInterval (config (app r)),
       tick = tick r + 1\<rparr>)"

definition download_iteration :: "world \<Rightarrow> real list \<times> run \<Rightarrow> real list \<times> run" where
  "download_iteration w sr =
     (let r = snd sr;
          e = events w (tick r);
          now = clock r + wall_ms e
      in finish_iteration e now r
           (case download_probe w e now (fst sr, app r) of
              Inl err \<Rightarrow> (fst sr, app r)
            | Inr sa \<Rightarrow> sa))"

definition upload_iteration :: "world \<Rightarrow> real list \<times> run \<Rightarrow> real list \<times> run" where
  "upload_iteration w sr =
     (let r = snd sr;
          e = events w (tick r);
          now = clock r + wall_ms e
      in finish_iteration e now r
           (case upload_probe e (fst sr, app r) of
              Inl err \<Rightarrow> (fst sr, app r)
            | Inr sa \<Rightarrow> sa))"

text \<open>
  \<^verbatim>\<open>while (Date.now() - startTime < this.config.testDuration && this.isTestRunning)\<close>.
  The clock never runs backwards, so the difference is the one of natural numbers. A
  loop that does not end has no result.
\<close>

definition continues :: "nat \<Rightarrow> run \<Rightarrow> bool" where
  "continues startTime r =
     (clock r - startTime < testDuration (config (app r)) \<and> isTestRunning (app r))"

partial_function (option) download_loop ::
  "world \<Rightarrow> nat \<Rightarrow> real list \<times> run \<Rightarrow> (real list \<times> run) option" where
  "download_loop w startTime sr =
     (if continues startTime (snd sr)
      then download_loop w startTime (download_iteration w sr)
      else Some sr)"

partial_function (option) upload_loop ::
  "world \<Rightarrow> nat \<Rightarrow> real list \<times> run \<Rightarrow> (real list \<times> run) option" where
  "upload_loop w startTime sr =
     (if continues startTime (snd sr)
      then upload_loop w startTime (upload_iteration w sr)
      else Some sr)"

text \<open>After the loop the mean of the accepted speeds is published, when there are any.\<close>

definition publish_download :: "world \<Rightarrow> real list \<times> run \<Rightarrow> run" where
  "publish_download w sr =
     (let speeds = fst sr; r = snd sr
      in if length speeds > 0
         then r\<lparr>app := updateDownloadSpeed (fl (js_sum speeds / real (length speeds)))
                          (time_string w (clock r)) (app r)\<rparr>
         else r)"

definition publish_upload :: "real list \<times> run \<Rightarrow> run" where
  "publish_upload sr =
     (let speeds = fst sr; r = snd sr
      in if length speeds > 0
         then r\<lparr>app := updateUploadSpeed (fl (js_sum speeds / real (length speeds))) (app r)\<rparr>
         else r)"

definition runDownloadTest :: "world \<Rightarrow> run \<Rightarrow> run option" where
  "runDownloadTest w r = map_option (publish_download w) (download_loop w (clock r) ([], r))"

definition runUploadTest :: "world \<Rightarrow> run \<Rightarrow> run option" where
  "runUploadTest w r = map_option publish_upload (upload_loop w (clock r) ([], r))"

subsection \<open>The orchestrator\<close>

text \<open>
  \<^verbatim>\<open>updateStats\<close>; \<^verbatim>\<open>Math.max(...xs)\<close> of a non-empty array is its greatest element.
\<close>

definition updateStats :: "analyzer \<Rightarrow> analyzer" where
  "updateStats a =
     (let d = testData a; s = stats a
      in if length (download d) = 0 \<and> length (upload d) = 0 then a
         else
           let avgDownload = (if length (download d) > 0
                              then fl (js_sum (download d) / real (length (download d))) else 0);
               avgUpload = (if length (upload d) > 0
                            then fl (js_sum (upload d) / real (length (upload d))) else 0);
               maxDown = (if length (download d) > 0 then Max (set (download d)) else 0);
               maxUp = (if length (upload d) > 0 then Max (set (upload d)) else 0)
           in a\<lparr>stats :=
                  \<lparr>testsRun = testsRun s + 1,
                   totalDownload = fl (totalDownload s + avgDownload),
                   totalUpload = fl (totalUpload s + avgUpload),
                   maxDownload = max (maxDownload s) maxDown,
                   maxUpload = max (maxUpload s) maxUp\<rparr>\<rparr>)"

text \<open>
  A step of the session either does not end, or returns, or throws. The \<^verbatim>\<open>try\<close> block
  of \<^verbatim>\<open>startSpeedTest\<close> runs the download phase, pauses for 500 ms, runs the upload phase
  and finalizes the statistics; an error of a step leaves the block at once.
\<close>

type_synonym step = "run \<Rightarrow> run result option"

definition session :: "step \<Rightarrow> step \<Rightarrow> run \<Rightarrow> run result option" where
  "session downloadStep uploadStep r =
     (case downloadStep r of
        None \<Rightarrow> None
      | Some (Raised err r1) \<Rightarrow> Some (Raised err r1)
      | Some (Done r1) \<Rightarrow>
          (case uploadStep (r1\<lparr>clock := clock r1 + 500\<rparr>) of
             None \<Rightarrow> None
           | Some (Raised err r2) \<Rightarrow> Some (Raised err r2)
           | Some (Done r2) \<Rightarrow>
               Some (Done (r2\<lparr>app := showStatus ''Speed test completed successfully'' ''success''
                                        (updateStats (app r2))\<rparr>))))"

text \<open>
  \<^verbatim>\<open>startSpeedTest\<close> over two arbitrary phases: the guard, the reset, the \<^verbatim>\<open>try\<close> block,
  the \<^verbatim>\<open>catch\<close> that reports, and the \<^verbatim>\<open>finally\<close> that calls \<^verbatim>\<open>stopSpeedTest\<close>.
\<close>

definition startSpeedTest_with :: "step \<Rightarrow> step \<Rightarrow> run \<Rightarrow> run option" where
  "startSpeedTest_with downloadStep uploadStep r =
     (if isTestRunning (app r) then Some r
      else
        case session downloadStep uploadStep
               (r\<lparr>app := resetTestUI ((app r)\<lparr>isTestRunning := True\<rparr>)\<rparr>) of
          None \<Rightarrow> None
        | Some (Done r1) \<Rightarrow> Some (r1\<lparr>app := stopSpeedTest (app r1)\<rparr>)
        | Some (Raised err r1) \<Rightarrow>
            Some (r1\<lparr>app := stopSpeedTest
                     (showStatus ''Speed test failed. Please check your connection and try again.''
                        ''error'' (app r1))\<rparr>))"

text \<open>The two phases of the source: on a page that has all its elements they do not throw.\<close>

definition downloadPhase :: "world \<Rightarrow> step" where
  "downloadPhase w r = map_option Done (runDownloadTest w r)"

definition uploadPhase :: "world \<Rightarrow> step" where
  "uploadPhase w r = map_option Done (runUploadTest w r)"

definition startSpeedTest :: "world \<Rightarrow> run \<Rightarrow> run option" where
  "startSpeedTest w r = startSpeedTest_with (downloadPhase w) (uploadPhase w) r"

subsection \<open>The page\<close>

definition set_text :: "string \<Rightarrow> string \<Rightarrow> analyzer \<Rightarrow> analyzer" where
  "set_text i v a = a\<lparr>page := (page a)(i := (page a i)\<lparr>textContent := v\<rparr>)\<rparr>"

definition set_color :: "string \<Rightarrow> string \<Rightarrow> analyzer \<Rightarrow> analyzer" where
  "set_color i v a = a\<lparr>page := (page a)(i := (page a i)\<lparr>color := v\<rparr>)\<rparr>"

text \<open>\<^verbatim>\<open>classList.add\<close> appends a token that is not there yet.\<close>

definition add_class :: "string \<Rightarrow> string \<Rightarrow> analyzer \<Rightarrow> analyzer" where
  "add_class i c a =
     (let cs = classList (page a i)
      in a\<lparr>page := (page a)(i := (page a i)\<lparr>classList := (if c \<in> set cs then cs else cs @ [c])\<rparr>)\<rparr>)"

definition remove_class :: "string \<Rightarrow> string \<Rightarrow> analyzer \<Rightarrow> analyzer" where
  "remove_class i c a =
     a\<lparr>page := (page a)(i := (page a i)\<lparr>classList := filter (\<lambda>x. x \<noteq> c) (classList (page a i))\<rparr>)\<rparr>"

definition set_classes :: "string \<Rightarrow> string list \<Rightarrow> analyzer \<Rightarrow> analyzer" where
  "set_classes i cs a = a\<lparr>page := (page a)(i := (page a i)\<lparr>classList := cs\<rparr>)\<rparr>"

text \<open>
  \<^verbatim>\<open>className.replace(/latency-\w+/g, '')\<close>, read on the tokens of the class list: a token
  that is \<^verbatim>\<open>latency-\<close> followed by word characters goes.
\<close>

definition word_char :: "char \<Rightarrow> bool" where
  "word_char c =
     (let n = of_char c :: nat
      in (48 \<le> n \<and> n \<le> 57) \<or> (65 \<le> n \<and> n \<le> 90) \<or> (97 \<le> n \<and> n \<le> 122) \<or> n = 95)"

definition latency_token :: "string \<Rightarrow> bool" where
  "latency_token c =
     (take 8 c = ''latency-'' \<and> drop 8 c \<noteq> [] \<and> list_all word_char (drop 8 c))"

definition clear_latency_classes :: "string \<Rightarrow> analyzer \<Rightarrow> analyzer" where
  "clear_latency_classes i a =
     set_classes i (filter (\<lambda>c. \<not> latency_token c) (classList (page a i))) a"

text \<open>\<^verbatim>\<open>s.includes(sub)\<close> and \<^verbatim>\<open>s.startsWith(p)\<close>\<close>

fun js_includes :: "string \<Rightarrow> string \<Rightarrow> bool" where
  "js_includes [] sub = (sub = [])"
| "js_includes (x # xs) sub = (take (length sub) (x # xs) = sub \<or> js_includes xs sub)"

definition startsWith :: "string \<Rightarrow> string \<Rightarrow> bool" where
  "startsWith s p = (take (length p) s = p)"

text \<open>
  \<^verbatim>\<open>x || fallback\<close> for a string that may be missing: the empty string is falsy too.
  A number is truthy when it is there and not zero.
\<close>

definition or_else :: "string option \<Rightarrow> string \<Rightarrow> string" where
  "or_else x fallback = (case x of None \<Rightarrow> fallback | Some s \<Rightarrow> if s = [] then fallback else s)"

definition truthy_number :: "real option \<Rightarrow> bool" where
  "truthy_number x = (case x of None \<Rightarrow> False | Some v \<Rightarrow> v \<noteq> 0)"

subsection \<open>The latency probe chain\<close>

text \<open>
  What one trial meets: how the request of the first method settles and what the clock
  then shows, at which time (in ms) the image fires \<^verbatim>\<open>load\<close> or \<^verbatim>\<open>error\<close>, if ever, what
  the peer connection does, and \<^verbatim>\<open>Math.random()\<close>.
\<close>

datatype rtc_outcome = Candidate real | OfferRejected error | NoCandidate

record latency_probe =
  fetch_settled :: "error + unit"
  fetch_ms :: real
  image_event :: "real option"
  rtc :: rtc_outcome
  random01 :: real

text \<open>
  \<^verbatim>\<open>measureLatencyWithFetch\<close> catches the error of its request and returns the elapsed
  time in either case.
\<close>

definition measureLatencyWithFetch :: "latency_probe \<Rightarrow> error + real" where
  "measureLatencyWithFetch p =
     (case fetch_settled p of Inl err \<Rightarrow> Inr (fetch_ms p) | Inr u \<Rightarrow> Inr (fetch_ms p))"

text \<open>The image and the peer connection race a timer of 3000 ms.\<close>

definition measureLatencyWithImage :: "latency_probe \<Rightarrow> error + real" where
  "measureLatencyWithImage p =
     (case image_event p of
        None \<Rightarrow> Inl (Error ''Image load timeout'')
      | Some t \<Rightarrow> if t < 3000 then Inr t else Inl (Error ''Image load timeout''))"

definition measureLatencyWithWebRTC :: "latency_probe \<Rightarrow> error + real" where
  "measureLatencyWithWebRTC p =
     (case rtc p of
        Candidate t \<Rightarrow> if t < 3000 then Inr t else Inl (Error ''WebRTC timeout'')
      | OfferRejected err \<Rightarrow> Inl err
      | NoCandidate \<Rightarrow> Inl (Error ''WebRTC timeout''))"

text \<open>
  What the three methods give in one trial, were each of them called, and the random
  number of the estimate. \<^verbatim>\<open>measureLatency\<close> is written over these results: its nested
  \<^verbatim>\<open>try\<close> blocks do not know which of the methods can fail.
\<close>

record methods =
  viaFetch :: "error + real"
  viaImage :: "error + real"
  viaWebRTC :: "error + real"
  estimate :: real

definition methods_of :: "latency_probe \<Rightarrow> methods" where
  "methods_of p =
     \<lparr>viaFetch = measureLatencyWithFetch p,
      viaImage = measureLatencyWithImage p,
      viaWebRTC = measureLatencyWithWebRTC p,
      estimate = random01 p\<rparr>"

text \<open>The body of the \<^verbatim>\<open>for\<close> loop: the chain of fallbacks of one trial.\<close>

definition trial_latency :: "methods \<Rightarrow> real" where
  "trial_latency m =
     (case viaFetch m of
        Inr v \<Rightarrow> v
      | Inl fetchError \<Rightarrow>
          (case viaImage m of
             Inr v \<Rightarrow> v
           | Inl imageError \<Rightarrow>
               (case viaWebRTC m of
                  Inr v \<Rightarrow> v
                | Inl webrtcError \<Rightarrow> fl (50 + fl (estimate m * 50)))))"

definition testCount :: nat where
  "testCount = 3"

definition measurements :: "(nat \<Rightarrow> methods) \<Rightarrow> real list" where
  "measurements trials = map (\<lambda>i. trial_latency (trials i)) [0..<testCount]"

text \<open>
  The average, or the error that the source throws when there is no measurement.
\<close>

definition avgLatency :: "(nat \<Rightarrow> methods) \<Rightarrow> error + real" where
  "avgLatency trials =
     (let ms = measurements trials
      in if length ms = 0 then Inl (Error ''No successful latency measurements'')
         else Inr (fl (js_sum ms / real (length ms))))"

datatype band = Excellent | Good | Fair | Poor

definition latency_band :: "real \<Rightarrow> band" where
  "latency_band avg =
     (if avg < 50 then Excellent
      else if avg < 100 then Good
      else if avg < 200 then Fair
      else Poor)"

fun band_class :: "band \<Rightarrow> string" where
  "band_class Excellent = ''latency-excellent''"
| "band_class Good = ''latency-good''"
| "band_class Fair = ''latency-fair''"
| "band_class Poor = ''latency-poor''"

fun band_color :: "band \<Rightarrow> string" where
  "band_color Excellent = ''#10b981''"
| "band_color Good = ''#f59e0b''"
| "band_color Fair = ''#f97316''"
| "band_color Poor = ''#ef4444''"

text \<open>
  \<^verbatim>\<open>measureLatency\<close> writes to the element \<^verbatim>\<open>latency\<close> and returns nothing. The conversion
  of a number to a string is the one of the language and is a parameter, \<open>number_text\<close>.
\<close>

definition measureLatency :: "(real \<Rightarrow> string) \<Rightarrow> (nat \<Rightarrow> methods) \<Rightarrow> analyzer \<Rightarrow> analyzer" where
  "measureLatency number_text trials a =
     (let a0 = set_color ''latency'' ''#6b7280'' (set_text ''latency'' ''Testing...'' a)
      in case avgLatency trials of
           Inr avg \<Rightarrow>
             set_color ''latency'' (band_color (latency_band avg))
               (add_class ''latency'' (band_class (latency_band avg))
                 (clear_latency_classes ''latency''
                   (remove_class ''latency'' ''error-state''
                     (set_text ''latency'' (number_text (real_of_int (js_round avg)) @ '' ms'') a0))))
         | Inl err \<Rightarrow>
             add_class ''latency'' ''error-state''
               (set_color ''latency'' ''#6b7280''
                 (set_text ''latency'' ''Unable to measure'' a0)))"

subsection \<open>The network information\<close>

record connection_info =
  effectiveType :: "string option"
  connectionKind :: "string option"
  downlink :: "real option"

record geo_data =
  city :: "string option"
  country_name :: "string option"
  org :: "string option"

text \<open>
  What the lookups of \<^verbatim>\<open>loadNetworkInfo\<close> meet: the addresses matched in the candidates
  that the peer connection reports within 5000 ms, in their order, and the error of its
  offer, if any; how the request of the fallback settles; \<^verbatim>\<open>navigator.connection\<close> and
  the connection object of a vendor prefix; whether the user agent is a mobile one; the
  result of the public address lookup and of the lookup of the location of an address;
  the three latency trials; the conversion of a number to a string.
\<close>

record net_world =
  rtc_candidates :: "string list"
  rtc_offer_error :: "error option"
  fallback_fetch :: "error + unit"
  nav_connection :: "connection_info option"
  vendor_connection :: "connection_info option"
  is_mobile :: bool
  ip_lookup :: "error + string"
  geo_lookup :: "string \<Rightarrow> error + geo_data"
  latency_probes :: "nat \<Rightarrow> latency_probe"
  number_text :: "real \<Rightarrow> string"

text \<open>\<^verbatim>\<open>navigator.connection || navigator.mozConnection || navigator.webkitConnection\<close>\<close>

definition connection_of :: "net_world \<Rightarrow> connection_info option" where
  "connection_of w = (case nav_connection w of Some c \<Rightarrow> Some c | None \<Rightarrow> vendor_connection w)"

text \<open>
  The promise of \<^verbatim>\<open>getLocalIP\<close>: the first address that is neither a loopback nor a
  link-local one resolves it; otherwise the error of the offer or the timeout rejects it.
\<close>

definition local_ip_promise :: "net_world \<Rightarrow> error + string" where
  "local_ip_promise w =
     (case find (\<lambda>ip. \<not> startsWith ip ''127.'' \<and> \<not> startsWith ip ''169.254.'') (rtc_candidates w) of
        Some ip \<Rightarrow> Inr ip
      | None \<Rightarrow>
          (case rtc_offer_error w of
             Some err \<Rightarrow> Inl err
           | None \<Rightarrow> Inl (Error ''Local IP detection timeout'')))"

definition getLocalIPFallback :: "net_world \<Rightarrow> analyzer \<Rightarrow> analyzer" where
  "getLocalIPFallback w a =
     (case fallback_fetch w of
        Inr u \<Rightarrow> set_text ''localIP'' ''Behind NAT/Firewall'' a
      | Inl err \<Rightarrow> set_text ''localIP'' ''Unable to detect'' a)"

definition getLocalIP :: "net_world \<Rightarrow> analyzer \<Rightarrow> analyzer" where
  "getLocalIP w a =
     (let a0 = set_text ''localIP'' ''Detecting...'' a
      in case local_ip_promise w of
           Inr localIP \<Rightarrow> add_class ''localIP'' ''result-slide-in'' (set_text ''localIP'' localIP a0)
         | Inl err \<Rightarrow> getLocalIPFallback w a0)"

text \<open>
  \<^verbatim>\<open>getNetworkName\<close>; the property \<^verbatim>\<open>connection\<close> is in \<^verbatim>\<open>navigator\<close> exactly when
  \<^verbatim>\<open>navigator.connection\<close> is an object.
\<close>

definition getNetworkName :: "net_world \<Rightarrow> analyzer \<Rightarrow> analyzer" where
  "getNetworkName w a =
     (case (if is_mobile w then nav_connection w else None) of
        Some c \<Rightarrow>
          if connectionKind c = Some ''wifi''
          then set_text ''networkName'' ''WiFi Network (name not accessible)'' a
          else if connectionKind c = Some ''cellular''
          then set_text ''networkName''
                 (''Cellular ('' @ or_else (effectiveType c) ''Unknown'' @ '')'') a
          else set_text ''networkName'' (or_else (connectionKind c) ''Unknown network'') a
      | None \<Rightarrow> set_text ''networkName'' ''Network name not accessible'' a)"

definition getNetworkConnectionInfo :: "net_world \<Rightarrow> analyzer \<Rightarrow> analyzer" where
  "getNetworkConnectionInfo w a =
     (case connection_of w of
        Some c \<Rightarrow>
          let a1 = set_text ''connectionType''
                     (or_else (effectiveType c) ''Unknown'' @ '' ('' @
                      or_else (connectionKind c) ''Unknown'' @ '')'') a;
              a2 = getNetworkName w a1
          in if truthy_number (downlink c)
             then set_text ''connectionSpeed''
                    (number_text w (the (downlink c)) @ '' Mbps (estimated)'') a2
             else set_text ''connectionSpeed'' ''Testing...'' a2
      | None \<Rightarrow>
          set_text ''connectionSpeed'' ''Not available''
            (set_text ''networkName'' ''Not available''
              (set_text ''connectionType'' ''Connection info not available'' a)))"

text \<open>\<^verbatim>\<open>updateNetworkInfo(data)\<close>\<close>

definition updateNetworkInfo :: "geo_data \<Rightarrow> analyzer \<Rightarrow> analyzer" where
  "updateNetworkInfo d a =
     add_class ''isp'' ''result-slide-in''
       (set_text ''isp'' (or_else (org d) ''Unknown ISP'')
         (add_class ''location'' ''result-slide-in''
           (set_text ''location''
              (or_else (city d) ''Unknown'' @ '', '' @ or_else (country_name d) ''Unknown'') a)))"

text \<open>
  \<^verbatim>\<open>analyzeConnectionQuality\<close>: the pair of the signal strength and the quality.
\<close>

definition quality_of :: "connection_info option \<Rightarrow> string \<times> string" where
  "quality_of conn =
     (case conn of
        None \<Rightarrow> (''Unknown'', ''Analyzing...'')
      | Some c \<Rightarrow>
          if truthy_number (downlink c) then
            (if the (downlink c) \<ge> 10 then (''Excellent (>10 Mbps)'', ''Excellent'')
             else if the (downlink c) \<ge> 5 then (''Good (5-10 Mbps)'', ''Good'')
             else if the (downlink c) \<ge> 1 then (''Fair (1-5 Mbps)'', ''Fair'')
             else (''Poor (<1 Mbps)'', ''Poor''))
          else
            (if effectiveType c = Some ''4g'' then (''Good (4G)'', ''Good'')
             else if effectiveType c = Some ''3g'' then (''Fair (3G)'', ''Fair'')
             else if effectiveType c = Some ''2g'' then (''Poor (2G)'', ''Poor'')
             else if effectiveType c = Some ''slow-2g'' then (''Very Poor (Slow 2G)'', ''Very Poor'')
             else (''Unknown'', ''Unknown'')))"

definition quality_classes :: "string \<Rightarrow> string list" where
  "quality_classes networkQuality =
     (if js_includes networkQuality ''Excellent'' \<or> js_includes networkQuality ''Good''
      then [''text-sm'', ''text-green-600'']
      else if js_includes networkQuality ''Fair'' then [''text-sm'', ''text-yellow-600'']
      else if js_includes networkQuality ''Poor'' then [''text-sm'', ''text-red-600'']
      else [''text-sm''])"

definition analyzeConnectionQuality :: "net_world \<Rightarrow> analyzer \<Rightarrow> analyzer" where
  "analyzeConnectionQuality w a =
     (let q = quality_of (connection_of w)
      in set_classes ''networkQuality'' (quality_classes (snd q))
           (set_text ''networkQuality'' (snd q)
             (set_text ''signalStrength'' (fst q) a)))"

text \<open>
  \<^verbatim>\<open>handleNetworkInfoError(error)\<close>: the message is looked up by the message of the
  error in a table of three keys, one of which is \<^verbatim>\<open>default\<close>; one notification of
  type \<^verbatim>\<open>error\<close> is shown, and eight elements get the text \<^verbatim>\<open>Error loading\<close>.
\<close>

definition errorMessages :: "string \<Rightarrow> string" where
  "errorMessages m =
     (if m = ''Failed to fetch''
      then ''Network connection error - please check your internet connection''
      else if m = ''timeout'' then ''Request timed out - please try again''
      else ''Failed to load network information'')"

definition error_fields :: "string list" where
  "error_fields =
     [''publicIP'', ''location'', ''isp'', ''localIP'', ''networkName'', ''connectionSpeed'',
      ''signalStrength'', ''networkQuality'']"

definition handleNetworkInfoError :: "error \<Rightarrow> analyzer \<Rightarrow> analyzer" where
  "handleNetworkInfoError err a =
     (case err of
        Error m \<Rightarrow>
          fold (\<lambda>i b. add_class i ''error-state'' (set_text i ''Error loading'' b)) error_fields
            (showStatus (errorMessages m) ''error'' a))"

text \<open>
  The \<^verbatim>\<open>try\<close> block of \<^verbatim>\<open>loadNetworkInfo\<close>. The two local steps catch their own errors;
  the two lookups throw theirs, and what has been written before stays written.
\<close>

definition loadNetworkInfo_try :: "net_world \<Rightarrow> analyzer \<Rightarrow> analyzer result" where
  "loadNetworkInfo_try w a =
     (let a1 = showStatus ''Loading network information...'' ''info'' a;
          a2 = getLocalIP w a1;
          a3 = getNetworkConnectionInfo w a2
      in case ip_lookup w of
           Inl err \<Rightarrow> Raised err a3
         | Inr ip \<Rightarrow>
             let a4 = set_text ''publicIP'' ip a3
             in case geo_lookup w ip of
                  Inl err \<Rightarrow> Raised err a4
                | Inr detailData \<Rightarrow>
                    let a5 = updateNetworkInfo detailData a4;
                        a6 = measureLatency (number_text w) (\<lambda>i. methods_of (latency_probes w i)) a5;
                        a7 = analyzeConnectionQuality w a6
                    in Done (showStatus ''Network information updated successfully'' ''success'' a7))"

definition loadNetworkInfo :: "net_world \<Rightarrow> analyzer \<Rightarrow> analyzer" where
  "loadNetworkInfo w a =
     (case loadNetworkInfo_try w a of
        Done a' \<Rightarrow> a'
      | Raised err a' \<Rightarrow> handleNetworkInfoError err a')"

subsection \<open>Concrete inputs\<close>

text \<open>
  A probe that always returns a body of 100,000 bytes after 50 ms, a configuration with a
  duration of 1000 ms and an interval of 200 ms, and a run that has just been started.
\<close>

definition steady_probe :: event where
  "steady_probe =
     \<lparr>fetched = Inr \<lparr>ok = True, status = 200, byteLength = 100000\<rparr>,
      wall_ms = 50, perf_ms = 50, rnd = 0, stop_clicked = False\<rparr>"

definition scenario_config :: configuration where
  "scenario_config = \<lparr>testDuration = 1000, updateInterval = 200, maxDataPoints = 20\<rparr>"

definition steady_world :: world where
  "steady_world = \<lparr>events = (\<lambda>i. steady_probe), time_string = (\<lambda>t. show_nat t)\<rparr>"

definition scenario_run :: run where
  "scenario_run =
     \<lparr>app = initial\<lparr>isTestRunning := True, config := scenario_config\<rparr>, clock = 0, tick = 0\<rparr>"

text \<open>
  A probe that is too fast to be believed: 100,000 bytes in \<open>1000 / 2 ^ 20\<close> ms, which
  is \<open>1 / 2 ^ 20\<close> seconds.
\<close>

definition fast_probe :: event where
  "fast_probe =
     \<lparr>fetched = Inr \<lparr>ok = True, status = 200, byteLength = 100000\<rparr>,
      wall_ms = 1, perf_ms = 1000 / 2 ^ 20, rnd = 0, stop_clicked = False\<rparr>"

definition fast_world :: world where
  "fast_world = \<lparr>events = (\<lambda>i. fast_probe), time_string = (\<lambda>t. show_nat t)\<rparr>"

text \<open>An idle run, a step that throws, and the run that a session with that step leaves.\<close>

definition idle_run :: run where
  "idle_run = \<lparr>app = initial, clock = 0, tick = 0\<rparr>"

definition failing_step :: step where
  "failing_step r = Some (Raised (Error ''Failed to fetch'') r)"

definition failed_run :: run where
  "failed_run =
     \<lparr>app = stopSpeedTest
              (showStatus ''Speed test failed. Please check your connection and try again.''
                 ''error'' (resetTestUI (initial\<lparr>isTestRunning := True\<rparr>))),
      clock = 0, tick = 0\<rparr>"

text \<open>
  The double nearest to 2.675, a speed whose hundredfold is rounded to a tie, and a probe
  on a dead network: the request times out after 3000 ms, the image never loads and no
  candidate arrives.
\<close>

definition tie_speed :: real where
  "tie_speed = 3011782250804019 / 2 ^ 50"

definition dead_probe :: latency_probe where
  "dead_probe =
     \<lparr>fetch_settled = Inl (Error ''timeout''), fetch_ms = 3000, image_event = None,
      rtc = NoCandidate, random01 = 1 / 2\<rparr>"

text \<open>
  A conversion of numbers to strings for the concrete inputs: the decimal numeral of the
  integer part.
\<close>

definition floor_text :: "real \<Rightarrow> string" where
  "floor_text x = show_nat (nat \<lfloor>x\<rfloor>)"

text \<open>
  A trial in which every method would fail, and a probe that is answered after 20 ms.
\<close>

definition all_failed :: methods where
  "all_failed =
     \<lparr>viaFetch = Inl (Error ''timeout''),
      viaImage = Inl (Error ''Image load timeout''),
      viaWebRTC = Inl (Error ''WebRTC timeout''),
      estimate = 1 / 2\<rparr>"

definition quiet_probe :: latency_probe where
  "quiet_probe =
     \<lparr>fetch_settled = Inr (), fetch_ms = 20, image_event = None, rtc = NoCandidate, random01 = 0\<rparr>"

text \<open>
  A world in which the public address is found and the lookup of its location times out.
\<close>

definition geo_timeout_world :: net_world where
  "geo_timeout_world =
     \<lparr>rtc_candidates = [''127.0.0.1'', ''192.168.1.23''],
      rtc_offer_error = None,
      fallback_fetch = Inr (),
      nav_connection = None,
      vendor_connection = None,
      is_mobile = False,
      ip_lookup = Inr ''203.0.113.7'',
      geo_lookup = (\<lambda>ip. Inl (Error ''timeout'')),
      latency_probes = (\<lambda>i. quiet_probe),
      number_text = floor_text\<rparr>"


section \<open>Properties\<close>

subsection \<open>Doubles\<close>

lemma round_even_error: "\<bar>real_of_int (round_even q) - q\<bar> \<le> 1 / 2"
  unfolding round_even_def Let_def by (auto simp: abs_le_iff)

lemma round_even_int [simp]: "round_even (real_of_int z) = z"
  by (simp add: round_even_def)

lemma pow2_less_imp: "(2::real) powi a < 2 powi b \<Longrightarrow> a < b"
  by (rule ccontr) (use power_int_increasing[of b a "2::real"] in auto)

lemma scaled_error:
  fixes q :: real
  assumes "q > 0"
  shows "\<bar>n * q - x\<bar> = \<bar>n - x / q\<bar> * q"
proof -
  have "n * q - x = (n - x / q) * q"
    using assms by (simp add: field_simps)
  then show ?thesis
    using assms by (simp add: abs_mult)
qed

lemma exponent_from_eq:
  assumes "2 powi k \<le> \<bar>x\<bar>" "\<bar>x\<bar> < 2 powi (k + 1)" "k0 \<le> k" "k \<le> k0 + int n"
  shows "exponent_from n k0 x = k"
  using assms
proof (induction n arbitrary: k0)
  case 0
  then show ?case by simp
next
  case (Suc n)
  show ?case
  proof (cases "\<bar>x\<bar> < 2 powi (k0 + 1)")
    case True
    with Suc.prems(1) have "(2::real) powi k < 2 powi (k0 + 1)" by linarith
    then have "k < k0 + 1" by (rule pow2_less_imp)
    with Suc.prems(3) True show ?thesis by simp
  next
    case False
    have "k \<noteq> k0" using False Suc.prems(2) by auto
    with Suc.prems have "k0 + 1 \<le> k" "k \<le> (k0 + 1) + int n" by simp_all
    from Suc.IH[OF Suc.prems(1,2) this] False show ?thesis by simp
  qed
qed

lemma exponent_eq:
  assumes "2 powi k \<le> \<bar>x\<bar>" "\<bar>x\<bar> < 2 powi (k + 1)" "- 1022 \<le> k" "k \<le> 1023"
  shows "exponent x = k"
  unfolding exponent_def using assms by (intro exponent_from_eq) simp_all

lemma exponent_from_le:
  assumes "\<bar>x\<bar> < 2 powi (K + 1)"
  shows "exponent_from n k0 x \<le> max k0 K"
  using assms
proof (induction n arbitrary: k0)
  case 0
  then show ?case by simp
next
  case (Suc n)
  show ?case
  proof (cases "\<bar>x\<bar> < 2 powi (k0 + 1)")
    case True
    then show ?thesis by simp
  next
    case False
    with Suc.prems have "(2::real) powi (k0 + 1) < 2 powi (K + 1)" by linarith
    then have "k0 + 1 < K + 1" by (rule pow2_less_imp)
    then have "k0 + 1 \<le> K" by simp
    with Suc.IH[OF Suc.prems, of "k0 + 1"] False show ?thesis by simp
  qed
qed

lemma exponent_le:
  assumes "\<bar>x\<bar> < 2 powi (K + 1)" "- 1022 \<le> K"
  shows "exponent x \<le> K"
  using exponent_from_le[OF assms(1), of 2045 "- 1022"] assms(2) by (simp add: exponent_def)

text \<open>The result of an operation is within half a unit in the last place of the exact one.\<close>

lemma fl_error: "\<bar>fl x - x\<bar> \<le> 2 powi (exponent x - 53)"
proof -
  define q :: real where "q = 2 powi (exponent x - 52)"
  define n where "n = real_of_int (round_even (x / q))"
  have q: "q > 0" by (simp add: q_def)
  have "\<bar>n - x / q\<bar> \<le> 1 / 2"
    unfolding n_def by (rule round_even_error)
  then have "\<bar>n - x / q\<bar> * q \<le> 1 / 2 * q"
    using q by (intro mult_right_mono) simp_all
  then have "\<bar>n * q - x\<bar> \<le> 1 / 2 * q"
    by (simp only: scaled_error[OF q])
  moreover have "1 / 2 * q = 2 powi (exponent x - 53)"
  proof -
    have "(2::real) powi (exponent x - 52) = 2 powi (exponent x - 53 + 1)" by simp
    also have "\<dots> = 2 powi (exponent x - 53) * 2"
      by (subst power_int_add) simp_all
    finally show ?thesis by (simp add: q_def)
  qed
  moreover have "fl x = n * q"
    by (simp add: fl_def Let_def q_def n_def)
  ultimately show ?thesis
    by simp
qed

lemma fl_error_bound:
  assumes "\<bar>x\<bar> < 2 powi (K + 1)" "- 1022 \<le> K"
  shows "\<bar>fl x - x\<bar> \<le> 2 powi (K - 53)"
proof -
  have "exponent x - 53 \<le> K - 53" using exponent_le[OF assms] by simp
  then have "(2::real) powi (exponent x - 53) \<le> 2 powi (K - 53)"
    by (intro power_int_increasing) simp_all
  with fl_error[of x] show ?thesis by linarith
qed

text \<open>The value of \<open>fl\<close> at a number whose binade is known.\<close>

lemma fl_eval:
  assumes "2 powi k \<le> \<bar>x\<bar>" "\<bar>x\<bar> < 2 powi (k + 1)" "- 1022 \<le> k" "k \<le> 1023"
  shows "fl x = real_of_int (round_even (x / 2 powi (k - 52))) * 2 powi (k - 52)"
  by (simp add: fl_def Let_def exponent_eq[OF assms])

lemma fl_exact:
  assumes "2 powi k \<le> \<bar>x\<bar>" "\<bar>x\<bar> < 2 powi (k + 1)" "- 1022 \<le> k" "k \<le> 1023"
    and "x / 2 powi (k - 52) = real_of_int m"
  shows "fl x = x"
proof -
  have "fl x = real_of_int m * 2 powi (k - 52)"
    by (simp add: fl_eval[OF assms(1-4)] assms(5))
  also have "\<dots> = x"
    using assms(5) by (simp add: field_simps)
  finally show ?thesis .
qed

lemma fl_0 [simp]: "fl 0 = 0"
  by (simp add: fl_def round_even_def)

lemma fl_1 [simp]: "fl 1 = 1"
  by (rule fl_exact[of 0 _ "2 ^ 52"]) simp_all

lemma fl_100 [simp]: "fl 100 = 100"
  by (rule fl_exact[of 6 _ "100 * 2 ^ 46"]) simp_all

subsection \<open>Rounding\<close>

lemma js_round_error: "\<bar>real_of_int (js_round y) - y\<bar> \<le> 1 / 2"
  unfolding js_round_def by linarith

lemma displaySpeed_1: "displaySpeed 1 = 1"
  by (simp add: displaySpeed_def js_round_def)

lemma displaySpeed_error_bound:
  assumes "\<bar>v\<bar> \<le> 1000"
  shows "\<bar>displaySpeed v - v\<bar> \<le> 5 / 1000 + 1 / 2 ^ 40"
proof -
  define y where "y = fl (v * 100)"
  define n where "n = real_of_int (js_round y)"
  have "\<bar>v * 100\<bar> < 2 powi (16 + 1)"
    using assms by (simp add: abs_mult)
  from fl_error_bound[OF this] have ey: "\<bar>y - v * 100\<bar> \<le> 1 / 2 ^ 37"
    by (simp add: y_def)
  have en: "\<bar>n - y\<bar> \<le> 1 / 2"
    unfolding n_def by (rule js_round_error)
  have "\<bar>n\<bar> \<le> 100000 + 1 / 2 ^ 37 + 1 / 2"
    using ey en assms by linarith
  then have "\<bar>n / 100\<bar> < 2 powi (10 + 1)"
    by simp
  from fl_error_bound[OF this] have es: "\<bar>fl (n / 100) - n / 100\<bar> \<le> 1 / 2 ^ 43"
    by simp
  define a where "a = fl (n / 100) - n / 100"
  define b where "b = n - y"
  define c where "c = y - v * 100"
  have bounds: "\<bar>a\<bar> \<le> 1 / 8796093022208" "\<bar>b\<bar> \<le> 1 / 2" "\<bar>c\<bar> \<le> 1 / 137438953472"
    using ey en es by (simp_all add: a_def b_def c_def)
  have "fl (n / 100) - v = a + b / 100 + c / 100"
    by (simp add: a_def b_def c_def field_simps)
  then have "\<bar>fl (n / 100) - v\<bar> \<le> \<bar>a\<bar> + \<bar>b\<bar> / 100 + \<bar>c\<bar> / 100"
    by linarith
  also have "\<dots> \<le> 5 / 1000 + 1 / 1099511627776"
    using bounds by linarith
  finally have "\<bar>fl (n / 100) - v\<bar> \<le> 5 / 1000 + 1 / 2 ^ 40"
    by simp
  then show ?thesis
    by (simp add: displaySpeed_def y_def n_def)
qed

text \<open>
  A speed of 2.675 Mbps: its hundredfold is rounded to 267.5, \<^verbatim>\<open>Math.round\<close> gives 268 and
  the value stored is the double 2.68.
\<close>

lemma tie_speed_is_double: "fl (2675 / 1000) = tie_speed"
  unfolding tie_speed_def
  by (subst fl_eval[of 1]) (simp_all add: round_even_def)

lemma tie_product: "fl (tie_speed * 100) = 535 / 2"
  unfolding tie_speed_def
  by (subst fl_eval[of 8]) (simp_all add: round_even_def)

lemma tie_stored: "displaySpeed tie_speed = 6034823500676465 / 2 ^ 51"
  unfolding displaySpeed_def tie_product
  by (simp add: js_round_def) (subst fl_eval[of 1], simp_all add: round_even_def)

subsection \<open>The series under the update methods\<close>

lemma updateChart_chart:
  "labels (chart (updateChart a)) = timestamps (testData (updateChart a)) \<and>
   dataset0 (chart (updateChart a)) = download (testData (updateChart a)) \<and>
   dataset1 (chart (updateChart a)) = upload (testData (updateChart a))"
  by (simp add: updateChart_def Let_def)

lemma updateDownloadSpeed_download:
  "download (testData (updateDownloadSpeed v stamp a)) =
     (if length (timestamps (testData a)) + 1 > maxDataPoints (config a)
      then tl (download (testData a) @ [displaySpeed v])
      else download (testData a) @ [displaySpeed v])"
  by (simp add: updateDownloadSpeed_def updateChart_def Let_def)

lemma updateDownloadSpeed_timestamps:
  "timestamps (testData (updateDownloadSpeed v stamp a)) =
     (if length (timestamps (testData a)) + 1 > maxDataPoints (config a)
      then tl (timestamps (testData a) @ [stamp])
      else timestamps (testData a) @ [stamp])"
  by (simp add: updateDownloadSpeed_def updateChart_def Let_def)

lemma updateUploadSpeed_upload:
  "upload (testData (updateUploadSpeed v a)) =
     (if length (timestamps (testData a)) > maxDataPoints (config a)
      then tl (upload (testData a) @ [displaySpeed v])
      else upload (testData a) @ [displaySpeed v])"
  by (simp add: updateUploadSpeed_def updateChart_def Let_def)

lemma updateUploadSpeed_timestamps:
  "timestamps (testData (updateUploadSpeed v a)) =
     (if length (timestamps (testData a)) > maxDataPoints (config a)
      then tl (timestamps (testData a))
      else timestamps (testData a))"
  by (simp add: updateUploadSpeed_def updateChart_def Let_def)

lemma updateUploadSpeed_download:
  "download (testData (updateUploadSpeed v a)) =
     (if length (timestamps (testData a)) > maxDataPoints (config a)
      then tl (download (testData a))
      else download (testData a))"
  by (simp add: updateUploadSpeed_def updateChart_def Let_def)

lemma config_updates [simp]:
  "config (updateChart a) = config a"
  "config (updateDownloadSpeed v stamp a) = config a"
  "config (updateUploadSpeed v a) = config a"
  "config (resetTestUI a) = config a"
  by (simp_all add: updateChart_def updateDownloadSpeed_def updateUploadSpeed_def
      resetTestUI_def Let_def)

lemma running_updates [simp]:
  "isTestRunning (updateChart a) = isTestRunning a"
  "isTestRunning (updateDownloadSpeed v stamp a) = isTestRunning a"
  "isTestRunning (updateUploadSpeed v a) = isTestRunning a"
  "isTestRunning (resetTestUI a) = isTestRunning a"
  by (simp_all add: updateChart_def updateDownloadSpeed_def updateUploadSpeed_def
      resetTestUI_def Let_def)

subsection \<open>The window of the download series\<close>

lemma newest_push:
  assumes "length dl \<le> C"
  shows "(if C < length dl + 1 then tl (dl @ [x]) else dl @ [x]) = newest C (dl @ [x])"
proof (cases "length dl = C")
  case True
  then have "length (dl @ [x]) - C = Suc 0" by simp
  moreover have "drop (Suc 0) (dl @ [x]) = tl (dl @ [x])"
    by (simp only: drop_Suc drop_0)
  ultimately show ?thesis using True by (simp only: newest_def) simp
next
  case False
  with assms show ?thesis by (simp add: newest_def)
qed

lemma newest_newest_append: "newest C (newest C xs @ ys) = newest C (xs @ ys)"
proof (cases "length xs \<le> C")
  case True
  then show ?thesis by (simp add: newest_def)
next
  case False
  define k where "k = length xs - C"
  have k: "k \<le> length xs" "length (drop k xs) = C"
    using False by (simp_all add: k_def)
  have "newest C (drop k xs @ ys) = drop (length ys) (drop k xs @ ys)"
    using k by (simp only: newest_def length_append) simp
  also have "\<dots> = drop (length ys) (drop k (xs @ ys))"
    using k by simp
  also have "\<dots> = drop (k + length ys) (xs @ ys)"
    by (simp only: drop_drop add.commute)
  also have "\<dots> = newest C (xs @ ys)"
    using False by (simp add: newest_def k_def)
  finally show ?thesis by (simp add: newest_def[of C xs] k_def)
qed

lemma length_newest: "length (newest C xs) = min (length xs) C"
  by (simp add: newest_def)

text \<open>
  From a state in which the download series and the timestamps have the same length,
  at most the capacity, any number of download updates leaves in both series the newest
  values, as many as the capacity admits.
\<close>

lemma push_downloads_window:
  assumes "length (download (testData a)) = length (timestamps (testData a))"
    and "length (timestamps (testData a)) \<le> maxDataPoints (config a)"
  shows "download (testData (push_downloads vs a)) =
           newest (maxDataPoints (config a))
             (download (testData a) @ map (\<lambda>p. displaySpeed (fst p)) vs)
       \<and> timestamps (testData (push_downloads vs a)) =
           newest (maxDataPoints (config a)) (timestamps (testData a) @ map snd vs)"
  using assms
proof (induction vs arbitrary: a)
  case Nil
  then show ?case by (simp add: push_downloads_def newest_def)
next
  case (Cons p vs)
  obtain v stamp where p: "p = (v, stamp)" by (cases p)
  let ?C = "maxDataPoints (config a)"
  let ?b = "updateDownloadSpeed v stamp a"
  have dl: "download (testData ?b) = newest ?C (download (testData a) @ [displaySpeed v])"
    using Cons.prems newest_push[of "download (testData a)" ?C "displaySpeed v"]
    by (simp add: updateDownloadSpeed_download)
  have ts: "timestamps (testData ?b) = newest ?C (timestamps (testData a) @ [stamp])"
    using Cons.prems newest_push[of "timestamps (testData a)" ?C stamp]
    by (simp add: updateDownloadSpeed_timestamps)
  have len: "length (download (testData ?b)) = length (timestamps (testData ?b))"
    using Cons.prems by (simp add: dl ts length_newest)
  have le: "length (timestamps (testData ?b)) \<le> maxDataPoints (config ?b)"
    by (simp add: ts length_newest)
  have step: "push_downloads ((v, stamp) # vs) a = push_downloads vs ?b"
    by (simp add: push_downloads_def)
  have "download (testData (push_downloads vs ?b)) =
          newest ?C (newest ?C (download (testData a) @ [displaySpeed v]) @
            map (\<lambda>p. displaySpeed (fst p)) vs)"
    and "timestamps (testData (push_downloads vs ?b)) =
          newest ?C (newest ?C (timestamps (testData a) @ [stamp]) @ map snd vs)"
    using Cons.IH[OF len le] by (simp_all add: dl ts)
  then show ?case
    by (simp add: step p newest_newest_append)
qed

lemma push_downloads_after_reset:
  "download (testData (push_downloads vs (resetTestUI a))) =
     newest (maxDataPoints (config a)) (map (\<lambda>p. displaySpeed (fst p)) vs)
   \<and> length (download (testData (push_downloads vs (resetTestUI a)))) =
     min (length vs) (maxDataPoints (config a))
   \<and> timestamps (testData (push_downloads vs (resetTestUI a))) =
     newest (maxDataPoints (config a)) (map snd vs)"
proof -
  have "length (download (testData (resetTestUI a))) = length (timestamps (testData (resetTestUI a)))"
    and "length (timestamps (testData (resetTestUI a))) \<le> maxDataPoints (config (resetTestUI a))"
    and "download (testData (resetTestUI a)) = []"
    and "timestamps (testData (resetTestUI a)) = []"
    by (simp_all add: resetTestUI_def)
  with push_downloads_window[of "resetTestUI a" vs] show ?thesis
    by (simp add: length_newest)
qed

text \<open>
  An upload update adds no timestamp. While the timestamps are within the capacity no
  upload update evicts anything, so the upload series keeps every value it is given.
\<close>

lemma push_uploads_unbounded:
  assumes "length (timestamps (testData a)) \<le> maxDataPoints (config a)"
  shows "upload (testData (push_uploads vs a)) = upload (testData a) @ map displaySpeed vs
       \<and> timestamps (testData (push_uploads vs a)) = timestamps (testData a)"
  using assms
proof (induction vs arbitrary: a)
  case Nil
  then show ?case by (simp add: push_uploads_def)
next
  case (Cons v vs)
  let ?b = "updateUploadSpeed v a"
  have ts: "timestamps (testData ?b) = timestamps (testData a)"
    using Cons.prems by (simp add: updateUploadSpeed_timestamps)
  have up: "upload (testData ?b) = upload (testData a) @ [displaySpeed v]"
    using Cons.prems by (simp add: updateUploadSpeed_upload)
  have le: "length (timestamps (testData ?b)) \<le> maxDataPoints (config ?b)"
    using Cons.prems by (simp add: ts)
  have step: "push_uploads (v # vs) a = push_uploads vs ?b"
    by (simp add: push_uploads_def)
  from Cons.IH[OF le] show ?case
    by (simp add: step ts up)
qed

lemma config_push_uploads: "config (push_uploads vs a) = config a"
  by (induction vs arbitrary: a) (simp_all add: push_uploads_def)

text \<open>
  C1. The claim asks that each series, the upload series too, has \<open>min N C\<close> elements
  after \<open>N\<close> pushes with capacity \<open>C = maxDataPoints\<close>. The download series does
  (\<open>push_downloads_after_reset\<close>). The upload series does not: with the capacity of 20
  that the constructor configures, 21 upload updates after a reset leave 21 values in
  the upload series, none evicted.
\<close>

theorem upload_series_exceeds_capacity:
  "upload (testData (push_uploads (replicate 21 1) (resetTestUI initial))) = replicate 21 1
   \<and> length (upload (testData (push_uploads (replicate 21 1) (resetTestUI initial)))) = 21
   \<and> maxDataPoints (config (push_uploads (replicate 21 1) (resetTestUI initial))) = 20"
proof -
  have le: "length (timestamps (testData (resetTestUI initial)))
              \<le> maxDataPoints (config (resetTestUI initial))"
    by (simp add: resetTestUI_def initial_def)
  have up: "upload (testData (resetTestUI initial)) = []"
    by (simp add: resetTestUI_def)
  have u: "upload (testData (push_uploads (replicate 21 1) (resetTestUI initial))) =
             upload (testData (resetTestUI initial)) @ map displaySpeed (replicate 21 1)"
    using push_uploads_unbounded[OF le] by blast
  have m: "maxDataPoints (config initial) = 20"
    by (simp add: initial_def)
  show ?thesis
    by (simp add: u up config_push_uploads m displaySpeed_1)
qed

subsection \<open>The download series and the timestamps\<close>

lemma chart_in_step_initial: "chart_in_step initial"
  by (simp add: chart_in_step_def initial_def)

lemma chart_in_step_op: "chart_in_step a \<Longrightarrow> chart_in_step (apply_series_op x a)"
  by (cases x)
    (simp_all add: chart_in_step_def updateDownloadSpeed_def updateUploadSpeed_def
      updateChart_def resetTestUI_def Let_def)

lemma chart_in_step_run: "chart_in_step a \<Longrightarrow> chart_in_step (run_series_ops ops a)"
  unfolding run_series_ops_def
  by (induction ops arbitrary: a) (simp_all add: chart_in_step_op)

text \<open>
  C9. After any sequence of download updates, upload updates and resets from the state
  of the constructor, the download series and the timestamps have the same length, and
  the chart shows as many download values as labels. The upload series need not have
  that length: after one download update it is still empty. A download update appends
  exactly one value to the download series and one stamp to the timestamps, and then,
  when the timestamps exceed the capacity, the first element of each is evicted. An
  upload update appends to neither. The update of the chart removes the first element of
  both when the timestamps exceed the capacity and nothing otherwise. The reset empties
  the three series and the chart.
\<close>

theorem download_and_timestamps_same_length:
  "length (download (testData (run_series_ops ops initial))) =
     length (timestamps (testData (run_series_ops ops initial)))
   \<and> length (dataset0 (chart (run_series_ops ops initial))) =
     length (labels (chart (run_series_ops ops initial)))
   \<and> (\<exists>ops'. length (upload (testData (run_series_ops ops' initial))) <
               length (download (testData (run_series_ops ops' initial))))
   \<and> download (testData (updateDownloadSpeed v stamp a)) =
     (if length (timestamps (testData a)) + 1 > maxDataPoints (config a)
      then tl (download (testData a) @ [displaySpeed v])
      else download (testData a) @ [displaySpeed v])
   \<and> timestamps (testData (updateDownloadSpeed v stamp a)) =
     (if length (timestamps (testData a)) + 1 > maxDataPoints (config a)
      then tl (timestamps (testData a) @ [stamp])
      else timestamps (testData a) @ [stamp])
   \<and> download (testData (updateUploadSpeed v a)) =
     (if length (timestamps (testData a)) > maxDataPoints (config a)
      then tl (download (testData a))
      else download (testData a))
   \<and> timestamps (testData (updateUploadSpeed v a)) =
     (if length (timestamps (testData a)) > maxDataPoints (config a)
      then tl (timestamps (testData a))
      else timestamps (testData a))
   \<and> download (testData (updateChart a)) =
     (if length (timestamps (testData a)) > maxDataPoints (config a)
      then tl (download (testData a))
      else download (testData a))
   \<and> timestamps (testData (updateChart a)) =
     (if length (timestamps (testData a)) > maxDataPoints (config a)
      then tl (timestamps (testData a))
      else timestamps (testData a))
   \<and> length (tl (timestamps (testData a))) = length (timestamps (testData a)) - 1
   \<and> length (tl (download (testData a))) = length (download (testData a)) - 1
   \<and> testData (resetTestUI a) = \<lparr>download = [], upload = [], timestamps = []\<rparr>
   \<and> chart (resetTestUI a) = \<lparr>labels = [], dataset0 = [], dataset1 = []\<rparr>"
proof -
  have inv: "chart_in_step (run_series_ops ops initial)"
    by (rule chart_in_step_run[OF chart_in_step_initial])
  have lag: "length (upload (testData (run_series_ops [PushDownload 1 ''12:00:00''] initial))) <
      length (download (testData (run_series_ops [PushDownload 1 ''12:00:00''] initial)))"
    by (simp add: run_series_ops_def updateDownloadSpeed_def updateChart_def initial_def Let_def)
  have first: "length (download (testData (run_series_ops ops initial))) =
     length (timestamps (testData (run_series_ops ops initial)))
   \<and> length (dataset0 (chart (run_series_ops ops initial))) =
     length (labels (chart (run_series_ops ops initial)))
   \<and> (\<exists>ops'. length (upload (testData (run_series_ops ops' initial))) <
               length (download (testData (run_series_ops ops' initial))))"
    using inv lag unfolding chart_in_step_def by metis
  have chart: "download (testData (updateChart a)) =
     (if length (timestamps (testData a)) > maxDataPoints (config a)
      then tl (download (testData a))
      else download (testData a))"
    "timestamps (testData (updateChart a)) =
     (if length (timestamps (testData a)) > maxDataPoints (config a)
      then tl (timestamps (testData a))
      else timestamps (testData a))"
    by (simp_all add: updateChart_def Let_def)
  have reset: "testData (resetTestUI a) = \<lparr>download = [], upload = [], timestamps = []\<rparr>"
    "chart (resetTestUI a) = \<lparr>labels = [], dataset0 = [], dataset1 = []\<rparr>"
    by (simp_all add: resetTestUI_def)
  show ?thesis
    using first chart reset
    by (simp only: updateDownloadSpeed_download updateDownloadSpeed_timestamps
        updateUploadSpeed_download updateUploadSpeed_timestamps length_tl simp_thms)
qed

text \<open>
  C10, as the code has it. Both update methods append \<^verbatim>\<open>Math.round(speed * 100) / 100\<close>,
  computed on doubles, and never the speed itself (the update of the chart then evicts
  the oldest value when the timestamps exceed the capacity). For a speed of magnitude at
  most 1000 the stored value is within \<open>0.005 + 1 / 2 ^ 40\<close> of the speed.
\<close>

theorem published_speeds_are_rounded:
  "download (testData (updateDownloadSpeed v stamp a)) =
     (if length (timestamps (testData a)) + 1 > maxDataPoints (config a)
      then tl (download (testData a) @ [displaySpeed v])
      else download (testData a) @ [displaySpeed v])
   \<and> upload (testData (updateUploadSpeed v a)) =
     (if length (timestamps (testData a)) > maxDataPoints (config a)
      then tl (upload (testData a) @ [displaySpeed v])
      else upload (testData a) @ [displaySpeed v])
   \<and> displaySpeed v = fl (real_of_int \<lfloor>fl (v * 100) + 1 / 2\<rfloor> / 100)
   \<and> (\<bar>v\<bar> \<le> 1000 \<longrightarrow> \<bar>displaySpeed v - v\<bar> \<le> 5 / 1000 + 1 / 2 ^ 40)"
  using displaySpeed_error_bound[of v]
  by (simp add: updateDownloadSpeed_download updateUploadSpeed_upload displaySpeed_def js_round_def)

theorem published_speeds_are_rounded_witness:
  "\<bar>tie_speed\<bar> \<le> 1000
   \<and> \<bar>displaySpeed tie_speed - tie_speed\<bar> \<le> 5 / 1000 + 1 / 2 ^ 40
   \<and> displaySpeed tie_speed = fl (real_of_int \<lfloor>fl (tie_speed * 100) + 1 / 2\<rfloor> / 100)"
proof -
  have h: "\<bar>tie_speed\<bar> \<le> 1000"
    by (simp add: tie_speed_def)
  show ?thesis
    using h published_speeds_are_rounded[of tie_speed] by blast
qed

text \<open>
  C10, as the claim has it, fails in its bound: the double nearest to 2.675 is stored as
  the double nearest to 2.68, which is more than 0.005 away from it.
\<close>

theorem stored_speed_more_than_half_a_hundredth_off:
  "fl (2675 / 1000) = tie_speed
   \<and> fl (tie_speed * 100) = 535 / 2
   \<and> displaySpeed tie_speed = 6034823500676465 / 2 ^ 51
   \<and> displaySpeed tie_speed - tie_speed > 5 / 1000
   \<and> \<not> \<bar>displaySpeed tie_speed - tie_speed\<bar> \<le> 5 / 1000"
proof -
  have "displaySpeed tie_speed - tie_speed > 5 / 1000"
    unfolding tie_stored by (simp add: tie_speed_def)
  then show ?thesis
    using tie_speed_is_double tie_product tie_stored by simp
qed

subsection \<open>The sampling loops\<close>

lemma config_stopSpeedTest [simp]: "config (stopSpeedTest a) = config a"
  by (simp add: stopSpeedTest_def)

lemma testData_stopSpeedTest [simp]: "testData (stopSpeedTest a) = testData a"
  by (simp add: stopSpeedTest_def)

lemma download_probe_config:
  "download_probe w e now (speeds, a) = Inr (speeds', a') \<Longrightarrow> config a' = config a"
  by (auto simp: download_probe_def Let_def split: sum.splits if_splits)

lemma upload_probe_config:
  "upload_probe e (speeds, a) = Inr (speeds', a') \<Longrightarrow> config a' = config a"
  by (auto simp: upload_probe_def Let_def split: sum.splits if_splits)

lemma download_iteration_facts:
  "config (app (snd (download_iteration w sr))) = config (app (snd sr))"
  "clock (snd (download_iteration w sr)) =
     clock (snd sr) + wall_ms (events w (tick (snd sr))) + updateInterval (config (app (snd sr)))"
  "tick (snd (download_iteration w sr)) = tick (snd sr) + 1"
  by (auto simp: download_iteration_def finish_iteration_def Let_def 
       split: sum.splits dest: download_probe_config)

lemma upload_iteration_facts:
  "config (app (snd (upload_iteration w sr))) = config (app (snd sr))"
  "clock (snd (upload_iteration w sr)) =
     clock (snd sr) + wall_ms (events w (tick (snd sr))) + updateInterval (config (app (snd sr)))"
  "tick (snd (upload_iteration w sr)) = tick (snd sr) + 1"
  by (auto simp: upload_iteration_def finish_iteration_def Let_def 
       split: sum.splits dest: upload_probe_config)

text \<open>
  With a positive interval every iteration moves the clock on, so both loops end, with
  the configuration they started with.
\<close>

lemma download_loop_terminates:
  assumes "updateInterval (config (app (snd sr))) > 0"
  shows "\<exists>res. download_loop w startTime sr = Some res
           \<and> config (app (snd res)) = config (app (snd sr))
           \<and> \<not> continues startTime (snd res)"
  using assms
proof (induction "startTime + testDuration (config (app (snd sr))) - clock (snd sr)"
    arbitrary: sr rule: less_induct)
  case less
  show ?case
  proof (cases "continues startTime (snd sr)")
    case False
    then show ?thesis by (simp add: download_loop.simps)
  next
    case True
    let ?sr = "download_iteration w sr"
    have cfg: "config (app (snd ?sr)) = config (app (snd sr))"
      by (rule download_iteration_facts)
    have "clock (snd sr) < startTime + testDuration (config (app (snd sr)))"
      using True unfolding continues_def by linarith
    moreover have "clock (snd ?sr) > clock (snd sr)"
      using less.prems by (simp add: download_iteration_facts)
    ultimately have "startTime + testDuration (config (app (snd ?sr))) - clock (snd ?sr)
        < startTime + testDuration (config (app (snd sr))) - clock (snd sr)"
      by (simp add: cfg)
    from less.hyps[OF this] less.prems cfg
    obtain res where "download_loop w startTime ?sr = Some res"
      "config (app (snd res)) = config (app (snd sr))" "\<not> continues startTime (snd res)"
      by auto
    with True show ?thesis
      by (subst download_loop.simps) simp
  qed
qed


lemma upload_loop_terminates:
  assumes "updateInterval (config (app (snd sr))) > 0"
  shows "\<exists>res. upload_loop w startTime sr = Some res
           \<and> config (app (snd res)) = config (app (snd sr))
           \<and> \<not> continues startTime (snd res)"
  using assms
proof (induction "startTime + testDuration (config (app (snd sr))) - clock (snd sr)"
    arbitrary: sr rule: less_induct)
  case less
  show ?case
  proof (cases "continues startTime (snd sr)")
    case False
    then show ?thesis by (simp add: upload_loop.simps)
  next
    case True
    let ?sr = "upload_iteration w sr"
    have cfg: "config (app (snd ?sr)) = config (app (snd sr))"
      by (rule upload_iteration_facts)
    have "clock (snd sr) < startTime + testDuration (config (app (snd sr)))"
      using True unfolding continues_def by linarith
    moreover have "clock (snd ?sr) > clock (snd sr)"
      using less.prems by (simp add: upload_iteration_facts)
    ultimately have "startTime + testDuration (config (app (snd ?sr))) - clock (snd ?sr)
        < startTime + testDuration (config (app (snd sr))) - clock (snd sr)"
      by (simp add: cfg)
    from less.hyps[OF this] less.prems cfg
    obtain res where "upload_loop w startTime ?sr = Some res"
      "config (app (snd res)) = config (app (snd sr))" "\<not> continues startTime (snd res)"
      by auto
    with True show ?thesis
      by (subst upload_loop.simps) simp
  qed
qed

lemma runDownloadTest_returns:
  assumes "updateInterval (config (app r)) > 0"
  shows "\<exists>r'. runDownloadTest w r = Some r' \<and> config (app r') = config (app r)"
proof -
  from download_loop_terminates[of "([], r)" w "clock r"] assms
  obtain res where res: "download_loop w (clock r) ([], r) = Some res"
    "config (app (snd res)) = config (app r)"
    by auto
  have "config (app (publish_download w res)) = config (app (snd res))"
    by (simp add: publish_download_def Let_def)
  with res show ?thesis
    by (simp add: runDownloadTest_def)
qed

lemma runUploadTest_returns:
  assumes "updateInterval (config (app r)) > 0"
  shows "\<exists>r'. runUploadTest w r = Some r' \<and> config (app r') = config (app r)"
proof -
  from upload_loop_terminates[of "([], r)" w "clock r"] assms
  obtain res where res: "upload_loop w (clock r) ([], r) = Some res"
    "config (app (snd res)) = config (app r)"
    by auto
  have "config (app (publish_upload res)) = config (app (snd res))"
    by (simp add: publish_upload_def Let_def)
  with res show ?thesis
    by (simp add: runUploadTest_def)
qed

subsection \<open>The steady probe\<close>

lemma fl_800000: "fl 800000 = 800000"
  by (rule fl_exact[of 19 _ "800000 * 2 ^ 33"]) simp_all

lemma fl_mebi: "fl 1048576 = 1048576"
  by (rule fl_exact[of 20 _ "2 ^ 52"]) simp_all

lemma steady_seconds: "fl (50 / 1000) = 7205759403792794 / 2 ^ 57"
  by (subst fl_eval[of "- 5"]) (simp_all add: round_even_def)

lemma steady_divisor: "fl (1048576 * (7205759403792794 / 2 ^ 57)) = 7205759403792794 / 2 ^ 37"
  by (subst fl_eval[of 15]) (simp_all add: round_even_def)

lemma steady_quotient: "fl (800000 / (7205759403792794 / 2 ^ 37)) = 15625 / 1024"
  by (subst fl_eval[of 3]) (simp_all add: round_even_def)

lemma steady_mbps: "mbps_of 100000 50 = 15625 / 1024"
proof -
  have a: "real 100000 * 8 = 800000" and b: "(1024::real) * 1024 = 1048576"
    by simp_all
  show ?thesis
    unfolding mbps_of_def
    by (simp only: a b fl_800000 fl_mebi steady_seconds steady_divisor steady_quotient)
qed

lemma steady_sane: "sane 100000 50"
  unfolding sane_def steady_mbps by simp

lemma steady_iteration:
  assumes "events w (tick r) = steady_probe" and "updateInterval (config (app r)) = 200"
  shows "download_iteration w (speeds, r) =
           (speeds @ [15625 / 1024],
            \<lparr>app = updateDownloadSpeed (15625 / 1024) (time_string w (clock r + 50)) (app r),
             clock = clock r + 250, tick = tick r + 1\<rparr>)"
  using assms
  by (simp add: download_iteration_def download_probe_def finish_iteration_def Let_def
      steady_probe_def steady_mbps steady_sane)

lemma steady_loop:
  assumes w: "\<forall>i. events w i = steady_probe"
    and run: "isTestRunning (app r)"
    and cfg: "testDuration (config (app r)) = 1000" "updateInterval (config (app r)) = 200"
  shows "download_loop w (clock r) ([], r) =
           Some (replicate 4 (15625 / 1024),
                 \<lparr>app = push_downloads
                          [(15625 / 1024, time_string w (clock r + 50)),
                           (15625 / 1024, time_string w (clock r + 300)),
                           (15625 / 1024, time_string w (clock r + 550)),
                           (15625 / 1024, time_string w (clock r + 800))] (app r),
                  clock = clock r + 1000, tick = tick r + 4\<rparr>)"
proof -
  let ?x = "15625 / 1024 :: real"
  let ?t = "clock r"
  define a1 where "a1 = updateDownloadSpeed ?x (time_string w (?t + 50)) (app r)"
  define a2 where "a2 = updateDownloadSpeed ?x (time_string w (?t + 300)) a1"
  define a3 where "a3 = updateDownloadSpeed ?x (time_string w (?t + 550)) a2"
  define a4 where "a4 = updateDownloadSpeed ?x (time_string w (?t + 800)) a3"
  define r1 where "r1 = \<lparr>app = a1, clock = ?t + 250, tick = tick r + 1\<rparr>"
  define r2 where "r2 = \<lparr>app = a2, clock = ?t + 500, tick = tick r + 2\<rparr>"
  define r3 where "r3 = \<lparr>app = a3, clock = ?t + 750, tick = tick r + 3\<rparr>"
  define r4 where "r4 = \<lparr>app = a4, clock = ?t + 1000, tick = tick r + 4\<rparr>"
  have i1: "download_iteration w ([], r) = ([?x], r1)"
    using steady_iteration[of w r "[]"] w cfg by (simp add: r1_def a1_def)
  have i2: "download_iteration w ([?x], r1) = ([?x, ?x], r2)"
    using steady_iteration[of w r1 "[?x]"] w cfg by (simp add: r1_def r2_def a1_def a2_def ac_simps)
  have i3: "download_iteration w ([?x, ?x], r2) = ([?x, ?x, ?x], r3)"
    using steady_iteration[of w r2 "[?x, ?x]"] w cfg
    by (simp add: r2_def r3_def a1_def a2_def a3_def ac_simps)
  have i4: "download_iteration w ([?x, ?x, ?x], r3) = ([?x, ?x, ?x, ?x], r4)"
    using steady_iteration[of w r3 "[?x, ?x, ?x]"] w cfg
    by (simp add: r3_def r4_def a1_def a2_def a3_def a4_def ac_simps)
  have c0: "continues ?t r"
    using run cfg by (simp add: continues_def)
  have c1: "continues ?t r1"
    using run cfg by (simp add: continues_def r1_def a1_def)
  have c2: "continues ?t r2"
    using run cfg by (simp add: continues_def r2_def a2_def a1_def)
  have c3: "continues ?t r3"
    using run cfg by (simp add: continues_def r3_def a3_def a2_def a1_def)
  have c4: "\<not> continues ?t r4"
    using run cfg by (simp add: continues_def r4_def a4_def a3_def a2_def a1_def)
  have "download_loop w ?t ([?x, ?x, ?x, ?x], r4) = Some ([?x, ?x, ?x, ?x], r4)"
    using c4 by (subst download_loop.simps) simp
  then have "download_loop w ?t ([?x, ?x, ?x], r3) = Some ([?x, ?x, ?x, ?x], r4)"
    using c3 i4 by (subst download_loop.simps) simp
  then have "download_loop w ?t ([?x, ?x], r2) = Some ([?x, ?x, ?x, ?x], r4)"
    using c2 i3 by (subst download_loop.simps) simp
  then have "download_loop w ?t ([?x], r1) = Some ([?x, ?x, ?x, ?x], r4)"
    using c1 i2 by (subst download_loop.simps) simp
  then have "download_loop w ?t ([], r) = Some ([?x, ?x, ?x, ?x], r4)"
    using c0 i1 by (subst download_loop.simps) simp
  moreover have "replicate 4 ?x = [?x, ?x, ?x, ?x]"
    by (simp add: eval_nat_numeral)
  moreover have "a4 = push_downloads
                          [(?x, time_string w (?t + 50)),
                           (?x, time_string w (?t + 300)),
                           (?x, time_string w (?t + 550)),
                           (?x, time_string w (?t + 800))] (app r)"
    by (simp add: push_downloads_def a4_def a3_def a2_def a1_def)
  ultimately show ?thesis
    by (simp add: r4_def)
qed

lemma steady_sums:
  "fl (0 + 15625 / 1024) = 15625 / 1024"
  "fl (15625 / 1024 + 15625 / 1024) = 15625 / 512"
  "fl (15625 / 512 + 15625 / 1024) = 46875 / 1024"
  "fl (46875 / 1024 + 15625 / 1024) = 15625 / 256"
  "fl (15625 / 256 / 4) = 15625 / 1024"
      apply (subst fl_eval[of 3]; simp add: round_even_def)
     apply (subst fl_eval[of 4]; simp add: round_even_def)
    apply (subst fl_eval[of 5]; simp add: round_even_def)
   apply (subst fl_eval[of 5]; simp add: round_even_def)
  apply (subst fl_eval[of 3]; simp add: round_even_def)
  done

lemma replicate4: "replicate 4 x = [x, x, x, x]"
  by (simp add: eval_nat_numeral)

lemma js_sum4: "js_sum [a, b, c, d] = fl (fl (fl (fl (0 + a) + b) + c) + d)"
  by (simp add: js_sum_def)

lemma steady_summary: "fl (js_sum (replicate 4 (15625 / 1024)) / 4) = 15625 / 1024"
  by (simp only: replicate4 js_sum4 steady_sums)

lemma steady_product: "fl (15625 / 1024 * 100) = 390625 / 256"
  by (subst fl_eval[of 10]) (simp_all add: round_even_def)

lemma steady_rounded: "js_round (390625 / 256) = 1526"
  by (simp add: js_round_def)

lemma steady_display: "displaySpeed (15625 / 1024) = fl (1526 / 100)"
  by (simp only: displaySpeed_def steady_product steady_rounded of_int_numeral)

lemma double_1526: "fl (1526 / 100) = 8590616289209221 / 2 ^ 49"
  by (subst fl_eval[of 3]) (simp_all add: round_even_def)

lemma double_1526_near: "\<bar>fl (1526 / 100) - 1526 / 100\<bar> \<le> 1 / 2 ^ 50"
  unfolding double_1526 by simp

lemma steady_run:
  assumes w: "\<forall>i. events w i = steady_probe"
    and run: "isTestRunning (app r)"
    and cfg: "config (app r) = scenario_config"
  shows "runDownloadTest w r =
           Some \<lparr>app = push_downloads
                          [(15625 / 1024, time_string w (clock r + 50)),
                           (15625 / 1024, time_string w (clock r + 300)),
                           (15625 / 1024, time_string w (clock r + 550)),
                           (15625 / 1024, time_string w (clock r + 800)),
                           (15625 / 1024, time_string w (clock r + 1000))] (app r),
                  clock = clock r + 1000, tick = tick r + 4\<rparr>"
proof -
  have c: "testDuration (config (app r)) = 1000" "updateInterval (config (app r)) = 200"
    using cfg by (simp_all add: scenario_config_def)
  show ?thesis
    unfolding runDownloadTest_def steady_loop[OF w run c]
    by (simp add: publish_download_def Let_def steady_summary push_downloads_def)
qed


lemma replicate5: "replicate 5 x = [x, x, x, x, x]"
  by (simp add: eval_nat_numeral)

text \<open>
  C3, as the code has it. With a duration of 1000 ms and an interval of 200 ms, against a
  probe that always returns 100,000 bytes and takes 50 ms, an iteration takes 250 ms: the
  loop starts iterations at 0, 250, 500 and 750 ms and stops at 1000 ms. It accepts
  exactly 4 samples, each \<open>100000 * 8 / (1024 * 1024 * 0.05)\<close> Mbps, which the doubles
  give exactly; their mean is that same value, and the download series then holds the
  four samples and the summary, each stored as the double nearest to 15.26.
\<close>

theorem steady_probe_gives_four_samples:
  assumes "\<forall>i. events w i = steady_probe"
    and "isTestRunning (app r)"
    and "config (app r) = scenario_config"
    and "testData (app r) = \<lparr>download = [], upload = [], timestamps = []\<rparr>"
  shows "\<exists>r1 r2.
           download_loop w (clock r) ([], r) =
             Some (replicate 4 (100000 * 8 / (1024 * 1024 * (50 / 1000))), r1)
         \<and> runDownloadTest w r = Some r2
         \<and> download (testData (app r2)) = replicate 5 (fl (1526 / 100))
         \<and> fl (js_sum (replicate 4 (100000 * 8 / (1024 * 1024 * (50 / 1000)))) / 4)
             = 100000 * 8 / (1024 * 1024 * (50 / 1000))
         \<and> mbps_of 100000 50 = 100000 * 8 / (1024 * 1024 * (50 / 1000))
         \<and> \<bar>fl (1526 / 100) - 1526 / 100\<bar> \<le> 1 / 2 ^ 50"
proof -
  have c: "testDuration (config (app r)) = 1000" "updateInterval (config (app r)) = 200"
    using assms(3) by (simp_all add: scenario_config_def)
  have x: "(100000 * 8 / (1024 * 1024 * (50 / 1000)) :: real) = 15625 / 1024"
    by simp
  have inv: "length (download (testData (app r))) = length (timestamps (testData (app r)))"
     "length (timestamps (testData (app r))) \<le> maxDataPoints (config (app r))"
    using assms(3,4) by simp_all
  have "download (testData (push_downloads
                          [(15625 / 1024, time_string w (clock r + 50)),
                           (15625 / 1024, time_string w (clock r + 300)),
                           (15625 / 1024, time_string w (clock r + 550)),
                           (15625 / 1024, time_string w (clock r + 800)),
                           (15625 / 1024, time_string w (clock r + 1000))] (app r)))
        = replicate 5 (fl (1526 / 100))"
    using push_downloads_window[OF inv] assms(3,4)
    by (simp add: newest_def scenario_config_def steady_display replicate5)
  then show ?thesis
    unfolding x
    using steady_loop[OF assms(1,2) c] steady_run[OF assms(1,2,3)] steady_summary
      steady_mbps double_1526_near
    by simp
qed

theorem steady_probe_gives_four_samples_witness:
  "(\<forall>i. events steady_world i = steady_probe)
   \<and> isTestRunning (app scenario_run)
   \<and> config (app scenario_run) = scenario_config
   \<and> testData (app scenario_run) = \<lparr>download = [], upload = [], timestamps = []\<rparr>
   \<and> (\<exists>r1 r2.
           download_loop steady_world (clock scenario_run) ([], scenario_run) =
             Some (replicate 4 (100000 * 8 / (1024 * 1024 * (50 / 1000))), r1)
         \<and> runDownloadTest steady_world scenario_run = Some r2
         \<and> download (testData (app r2)) = replicate 5 (fl (1526 / 100))
         \<and> fl (js_sum (replicate 4 (100000 * 8 / (1024 * 1024 * (50 / 1000)))) / 4)
             = 100000 * 8 / (1024 * 1024 * (50 / 1000))
         \<and> mbps_of 100000 50 = 100000 * 8 / (1024 * 1024 * (50 / 1000))
         \<and> \<bar>fl (1526 / 100) - 1526 / 100\<bar> \<le> 1 / 2 ^ 50)"
proof -
  have h1: "\<forall>i. events steady_world i = steady_probe"
    by (simp add: steady_world_def)
  have h2: "isTestRunning (app scenario_run)"
    by (simp add: scenario_run_def)
  have h3: "config (app scenario_run) = scenario_config"
    by (simp add: scenario_run_def)
  have h4: "testData (app scenario_run) = \<lparr>download = [], upload = [], timestamps = []\<rparr>"
    by (simp add: scenario_run_def initial_def)
  show ?thesis
    using h1 h2 h3 h4 steady_probe_gives_four_samples[OF h1 h2 h3 h4] by blast
qed

text \<open>
  C3, as the claim has it, fails: in the run above the loop accepts 4 samples, not 5.
\<close>

theorem steady_probe_not_five_samples:
  "map_option (length \<circ> fst) (download_loop steady_world (clock scenario_run) ([], scenario_run)) = Some 4
   \<and> map_option (length \<circ> fst) (download_loop steady_world (clock scenario_run) ([], scenario_run)) \<noteq> Some 5"
proof -
  have "\<forall>i. events steady_world i = steady_probe"
    by (simp add: steady_world_def)
  moreover have "isTestRunning (app scenario_run)"
    by (simp add: scenario_run_def)
  moreover have "testDuration (config (app scenario_run)) = 1000"
    "updateInterval (config (app scenario_run)) = 200"
    by (simp_all add: scenario_run_def scenario_config_def)
  ultimately show ?thesis
    using steady_loop[of steady_world scenario_run] by simp
qed

subsection \<open>The sanity filter\<close>

text \<open>
  C6. In either direction, an iteration whose computed speed is at most 0 or at least
  1000 Mbps leaves the array of accepted speeds, from which the final average is taken,
  and the series as they were. An iteration adds nothing to the accepted speeds, or one
  value that lies strictly between 0 and 1000.
\<close>

lemma fast_seconds: "fl (1000 / 2 ^ 20 / 1000) = 1 / 2 ^ 20"
  by (subst fl_eval[of "- 20"]) (simp_all add: round_even_def)

lemma fast_divisor: "fl (1048576 * (1 / 2 ^ 20)) = 1"
  by simp

lemma fl_200000: "fl 200000 = 200000"
  by (rule fl_exact[of 17 _ "200000 * 2 ^ 35"]) simp_all

lemma fast_mbps_download: "mbps_of 100000 (1000 / 2 ^ 20) = 800000"
proof -
  have a: "real 100000 * 8 = 800000" and b: "(1024::real) * 1024 = 1048576"
    and c: "(800000::real) / 1 = 800000"
    by simp_all
  show ?thesis
    unfolding mbps_of_def
    by (simp only: a b c fl_800000 fl_mebi fast_seconds fast_divisor)
qed

lemma fast_size: "testDataSize 0 = 25000"
  by (simp add: testDataSize_def)

lemma fast_mbps_upload: "mbps_of (testDataSize 0) (1000 / 2 ^ 20) = 200000"
proof -
  have a: "real 25000 * 8 = 200000" and b: "(1024::real) * 1024 = 1048576"
    and c: "(200000::real) / 1 = 200000"
    by simp_all
  show ?thesis
    unfolding mbps_of_def fast_size
    by (simp only: a b c fl_200000 fl_mebi fast_seconds fast_divisor)
qed

theorem insane_samples_are_discarded:
  "(fetched (events w (tick r)) = Inr resp
      \<and> (mbps_of (byteLength resp) (perf_ms (events w (tick r))) \<le> 0
         \<or> mbps_of (byteLength resp) (perf_ms (events w (tick r))) \<ge> 1000)
    \<longrightarrow> fst (download_iteration w (speeds, r)) = speeds
        \<and> testData (app (snd (download_iteration w (speeds, r)))) = testData (app r))
   \<and> ((mbps_of (testDataSize (rnd (events w (tick r)))) (perf_ms (events w (tick r))) \<le> 0
         \<or> mbps_of (testDataSize (rnd (events w (tick r)))) (perf_ms (events w (tick r))) \<ge> 1000)
    \<longrightarrow> fst (upload_iteration w (speeds, r)) = speeds
        \<and> testData (app (snd (upload_iteration w (speeds, r)))) = testData (app r))
   \<and> (fst (download_iteration w (speeds, r)) = speeds
      \<or> (\<exists>m. fst (download_iteration w (speeds, r)) = speeds @ [m] \<and> 0 < m \<and> m < 1000))
   \<and> (fst (upload_iteration w (speeds, r)) = speeds
      \<or> (\<exists>m. fst (upload_iteration w (speeds, r)) = speeds @ [m] \<and> 0 < m \<and> m < 1000))"
  by (auto simp: download_iteration_def download_probe_def upload_iteration_def upload_probe_def
      finish_iteration_def sane_def Let_def split: sum.splits)

theorem insane_samples_are_discarded_witness:
  "(fetched (events fast_world (tick scenario_run)) = Inr \<lparr>ok = True, status = 200, byteLength = 100000\<rparr>
      \<and> (mbps_of 100000 (perf_ms (events fast_world (tick scenario_run))) \<le> 0
         \<or> mbps_of 100000 (perf_ms (events fast_world (tick scenario_run))) \<ge> 1000))
   \<and> fst (download_iteration fast_world ([], scenario_run)) = []
   \<and> testData (app (snd (download_iteration fast_world ([], scenario_run)))) = testData (app scenario_run)
   \<and> (mbps_of (testDataSize (rnd (events fast_world (tick scenario_run)))) (perf_ms (events fast_world (tick scenario_run))) \<le> 0
         \<or> mbps_of (testDataSize (rnd (events fast_world (tick scenario_run)))) (perf_ms (events fast_world (tick scenario_run))) \<ge> 1000)
   \<and> fst (upload_iteration fast_world ([], scenario_run)) = []
   \<and> testData (app (snd (upload_iteration fast_world ([], scenario_run)))) = testData (app scenario_run)"
proof -
  have f: "fetched (events fast_world (tick scenario_run)) = Inr \<lparr>ok = True, status = 200, byteLength = 100000\<rparr>"
    by (simp add: fast_world_def fast_probe_def)
  have p: "perf_ms (events fast_world (tick scenario_run)) = 1000 / 2 ^ 20"
    and q: "rnd (events fast_world (tick scenario_run)) = 0"
    by (simp_all only: fast_world_def fast_probe_def world.simps event.simps)
  have d: "mbps_of 100000 (perf_ms (events fast_world (tick scenario_run))) \<ge> 1000"
    unfolding p fast_mbps_download by simp
  have u: "mbps_of (testDataSize (rnd (events fast_world (tick scenario_run)))) (perf_ms (events fast_world (tick scenario_run))) \<ge> 1000"
    unfolding p q fast_mbps_upload by simp
  show ?thesis
    using f d u insane_samples_are_discarded[of fast_world scenario_run "\<lparr>ok = True, status = 200, byteLength = 100000\<rparr>" "[]"]
    by simp
qed


subsection \<open>The orchestrator\<close>

lemma startSpeedTest_with_idle:
  assumes "\<not> isTestRunning (app r)" and "startSpeedTest_with dl ul r = Some r'"
  shows "\<not> isTestRunning (app r')"
  using assms
  by (auto simp: startSpeedTest_with_def stopSpeedTest_def split: option.splits result.splits)

lemma startSpeedTest_returns:
  assumes "\<not> isTestRunning (app r)" and "updateInterval (config (app r)) > 0"
  shows "\<exists>r'. startSpeedTest w r = Some r'"
proof -
  let ?r0 = "r\<lparr>app := resetTestUI ((app r)\<lparr>isTestRunning := True\<rparr>)\<rparr>"
  have i0: "updateInterval (config (app ?r0)) > 0"
    using assms(2) by simp
  from runDownloadTest_returns[OF i0, of w]
  obtain r1 where r1: "runDownloadTest w ?r0 = Some r1" "config (app r1) = config (app ?r0)"
    by auto
  let ?r1 = "r1\<lparr>clock := clock r1 + 500\<rparr>"
  have i1: "updateInterval (config (app ?r1)) > 0"
    using i0 r1(2) by simp
  from runUploadTest_returns[OF i1, of w]
  obtain r2 where r2: "runUploadTest w ?r1 = Some r2"
    by auto
  show ?thesis
    using assms(1) r1(1) r2
    by (simp add: startSpeedTest_def startSpeedTest_with_def session_def downloadPhase_def uploadPhase_def)
qed

text \<open>
  C7. \<^verbatim>\<open>stopSpeedTest\<close> on an idle analyzer leaves the flag, the series, the chart and
  the statistics as they are. \<^verbatim>\<open>startSpeedTest\<close> on a running analyzer returns at once:
  the run is the same, so no event has been consumed, no session has been started and
  the series have not been reset.
\<close>

theorem reentry_guards_are_idempotent:
  "(\<not> isTestRunning a \<longrightarrow>
       isTestRunning (stopSpeedTest a) = isTestRunning a
       \<and> testData (stopSpeedTest a) = testData a
       \<and> chart (stopSpeedTest a) = chart a
       \<and> stats (stopSpeedTest a) = stats a)
   \<and> (isTestRunning (app r) \<longrightarrow> startSpeedTest w r = Some r)"
  by (simp add: stopSpeedTest_def startSpeedTest_def startSpeedTest_with_def)

theorem reentry_guards_are_idempotent_witness:
  "\<not> isTestRunning initial
   \<and> isTestRunning (stopSpeedTest initial) = isTestRunning initial
   \<and> testData (stopSpeedTest initial) = testData initial
   \<and> chart (stopSpeedTest initial) = chart initial
   \<and> stats (stopSpeedTest initial) = stats initial
   \<and> isTestRunning (app scenario_run)
   \<and> startSpeedTest steady_world scenario_run = Some scenario_run"
proof -
  have h1: "\<not> isTestRunning initial" by (simp add: initial_def)
  have h2: "isTestRunning (app scenario_run)" by (simp add: scenario_run_def)
  show ?thesis
    using h1 h2 reentry_guards_are_idempotent[of initial scenario_run steady_world] by simp
qed

text \<open>
  C8. A session that is started on an idle analyzer ends with the flag cleared, whatever
  its two phases do: return or throw. With the phases of the source and a positive
  interval the session does end.
\<close>

theorem session_always_ends_idle:
  "(\<not> isTestRunning (app r) \<and> startSpeedTest_with downloadStep uploadStep r = Some r'
      \<longrightarrow> \<not> isTestRunning (app r'))
   \<and> (\<not> isTestRunning (app r) \<and> updateInterval (config (app r)) > 0
      \<longrightarrow> (\<exists>r''. startSpeedTest w r = Some r'' \<and> \<not> isTestRunning (app r'')))"
proof (intro conjI impI)
  assume "\<not> isTestRunning (app r) \<and> startSpeedTest_with downloadStep uploadStep r = Some r'"
  then show "\<not> isTestRunning (app r')"
    using startSpeedTest_with_idle by blast
next
  assume a: "\<not> isTestRunning (app r) \<and> updateInterval (config (app r)) > 0"
  then obtain r'' where "startSpeedTest w r = Some r''"
    using startSpeedTest_returns by blast
  moreover from this a have "\<not> isTestRunning (app r'')"
    unfolding startSpeedTest_def using startSpeedTest_with_idle by blast
  ultimately show "\<exists>r''. startSpeedTest w r = Some r'' \<and> \<not> isTestRunning (app r'')"
    by blast
qed

theorem session_always_ends_idle_witness:
  "\<not> isTestRunning (app idle_run)
   \<and> startSpeedTest_with failing_step (uploadPhase steady_world) idle_run = Some failed_run
   \<and> \<not> isTestRunning (app failed_run)
   \<and> updateInterval (config (app idle_run)) > 0
   \<and> (\<exists>r''. startSpeedTest steady_world idle_run = Some r'' \<and> \<not> isTestRunning (app r''))"
proof -
  have h1: "\<not> isTestRunning (app idle_run)"
    by (simp add: idle_run_def initial_def)
  have h2: "startSpeedTest_with failing_step (uploadPhase steady_world) idle_run = Some failed_run"
    by (simp add: startSpeedTest_with_def session_def failing_step_def idle_run_def failed_run_def
        initial_def)
  have h3: "updateInterval (config (app idle_run)) > 0"
    by (simp add: idle_run_def initial_def)
  show ?thesis
    using h1 h2 h3
      session_always_ends_idle[of idle_run failing_step "uploadPhase steady_world" failed_run steady_world]
    by simp
qed

subsection \<open>The page\<close>

lemma page_simps [simp]:
  "textContent (page (set_text i v a) j) = (if j = i then v else textContent (page a j))"
  "textContent (page (set_color i c a) j) = textContent (page a j)"
  "textContent (page (add_class i c a) j) = textContent (page a j)"
  "textContent (page (remove_class i c a) j) = textContent (page a j)"
  "textContent (page (set_classes i cs a) j) = textContent (page a j)"
  "textContent (page (clear_latency_classes i a) j) = textContent (page a j)"
  "textContent (page (showStatus m k a) j) = textContent (page a j)"
  by (simp_all add: set_text_def set_color_def add_class_def remove_class_def set_classes_def
      clear_latency_classes_def showStatus_def Let_def)

lemma color_simps [simp]:
  "color (page (set_text i v a) j) = color (page a j)"
  "color (page (set_color i c a) j) = (if j = i then c else color (page a j))"
  "color (page (add_class i c a) j) = color (page a j)"
  "color (page (remove_class i c a) j) = color (page a j)"
  "color (page (set_classes i cs a) j) = color (page a j)"
  "color (page (clear_latency_classes i a) j) = color (page a j)"
  by (simp_all add: set_text_def set_color_def add_class_def remove_class_def set_classes_def
      clear_latency_classes_def Let_def)

lemma class_simps [simp]:
  "classList (page (set_text i v a) j) = classList (page a j)"
  "classList (page (set_color i c a) j) = classList (page a j)"
  "classList (page (set_classes i cs a) j) = (if j = i then cs else classList (page a j))"
  "classList (page (add_class i c a) j) =
     (if j = i then (if c \<in> set (classList (page a i)) then classList (page a i)
                     else classList (page a i) @ [c])
      else classList (page a j))"
  by (simp_all add: set_text_def set_color_def add_class_def set_classes_def Let_def)

lemma notifications_simps [simp]:
  "notifications (set_text i v a) = notifications a"
  "notifications (set_color i c a) = notifications a"
  "notifications (add_class i c a) = notifications a"
  "notifications (remove_class i c a) = notifications a"
  "notifications (set_classes i cs a) = notifications a"
  "notifications (clear_latency_classes i a) = notifications a"
  "notifications (showStatus m k a) = notifications a @ [(m, k)]"
  by (simp_all add: set_text_def set_color_def add_class_def remove_class_def set_classes_def
      clear_latency_classes_def showStatus_def Let_def)

subsection \<open>The latency probe chain\<close>

lemma measurements_three:
  "measurements trials =
     [trial_latency (trials 0), trial_latency (trials 1), trial_latency (trials 2)]"
  by (simp add: measurements_def testCount_def eval_nat_numeral upt_rec)

lemma measurements_length: "length (measurements trials) = 3"
  by (simp add: measurements_def testCount_def)

lemma avgLatency_value: "avgLatency trials = Inr (fl (js_sum (measurements trials) / 3))"
proof -
  have "measurements trials \<noteq> []"
    by (simp add: measurements_three)
  then show ?thesis
    by (simp add: avgLatency_def measurements_length Let_def)
qed

lemma measureLatency_text:
  "textContent (page (measureLatency nt trials a) ''latency'') =
     nt (real_of_int (js_round (fl (js_sum (measurements trials) / 3)))) @ '' ms''"
  by (simp add: measureLatency_def avgLatency_value Let_def)

lemma measureLatency_color:
  "color (page (measureLatency nt trials a) ''latency'') =
     band_color (latency_band (fl (js_sum (measurements trials) / 3)))"
  by (simp add: measureLatency_def avgLatency_value Let_def)


text \<open>
  The estimate of a trial in which all three methods fail. On doubles it can be exactly
  100: the random number just below 1 gives \<open>50 - 1 / 2 ^ 47\<close> as the product, and the
  sum with 50 lies halfway between two doubles, of which 100 is the even one.
\<close>

lemma trial_all_failed:
  assumes "isl (viaFetch m)" "isl (viaImage m)" "isl (viaWebRTC m)"
  shows "trial_latency m = fl (50 + fl (estimate m * 50))"
  using assms by (auto simp: trial_latency_def split: sum.splits)

lemma estimate_product: "fl ((1 - 1 / 2 ^ 53) * 50) = 50 - 1 / 2 ^ 47"
  by (subst fl_eval[of 5]) (simp_all add: round_even_def)

lemma estimate_sum: "fl (50 + (50 - 1 / 2 ^ 47)) = 100"
  by (subst fl_eval[of 6]) (simp_all add: round_even_def)

lemma estimate_reaches_100:
  "trial_latency (all_failed\<lparr>estimate := 1 - 1 / 2 ^ 53\<rparr>) = 100"
proof -
  have "trial_latency (all_failed\<lparr>estimate := 1 - 1 / 2 ^ 53\<rparr>)
          = fl (50 + fl ((1 - 1 / 2 ^ 53) * 50))"
    by (subst trial_all_failed) (simp_all add: all_failed_def)
  then show ?thesis
    by (simp only: estimate_product estimate_sum)
qed

text \<open>
  The first method never fails: it catches the error of its request and returns the
  time that has passed. In a run of the source the fallbacks of \<^verbatim>\<open>measureLatency\<close> are
  therefore not reached.
\<close>

lemma measureLatencyWithFetch_never_fails: "\<not> isl (viaFetch (methods_of p))"
  by (simp add: methods_of_def measureLatencyWithFetch_def split: sum.splits)

lemma fl_3000s:
  "fl (0 + 3000) = 3000" "fl (3000 + 3000) = 6000" "fl (6000 + 3000) = 9000"
  "fl (9000 / 3) = 3000"
     apply (subst fl_eval[of 11]; simp add: round_even_def)
    apply (subst fl_eval[of 12]; simp add: round_even_def)
   apply (subst fl_eval[of 13]; simp add: round_even_def)
  apply (subst fl_eval[of 11]; simp add: round_even_def)
  done

lemma js_sum3: "js_sum [a, b, c] = fl (fl (fl (0 + a) + b) + c)"
  by (simp add: js_sum_def)

text \<open>
  C4. The claim asks for a value in \<open>[50, 100)\<close> when all three methods fail in all three
  trials. On a dead network, where the request of the first method times out after
  3000 ms, the image never loads and no candidate arrives, the first method returns the
  3000 ms as its measurement: no fallback is tried, no estimate is made, and the element
  shows an average of 3000 ms, in the band of the poor latencies.
\<close>

theorem dead_network_shows_the_timeout:
  "fetch_settled dead_probe = Inl (Error ''timeout'')
   \<and> isl (viaImage (methods_of dead_probe))
   \<and> isl (viaWebRTC (methods_of dead_probe))
   \<and> viaFetch (methods_of dead_probe) = Inr 3000
   \<and> trial_latency (methods_of dead_probe) = 3000
   \<and> avgLatency (\<lambda>i. methods_of dead_probe) = Inr 3000
   \<and> textContent (page (measureLatency floor_text (\<lambda>i. methods_of dead_probe) initial) ''latency'')
       = ''3000 ms''
   \<and> color (page (measureLatency floor_text (\<lambda>i. methods_of dead_probe) initial) ''latency'')
       = band_color Poor"
proof -
  have m: "viaFetch (methods_of dead_probe) = Inr 3000"
    "isl (viaImage (methods_of dead_probe))" "isl (viaWebRTC (methods_of dead_probe))"
    "fetch_settled dead_probe = Inl (Error ''timeout'')"
    by (simp_all add: methods_of_def measureLatencyWithFetch_def measureLatencyWithImage_def
        measureLatencyWithWebRTC_def dead_probe_def)
  have t: "trial_latency (methods_of dead_probe) = 3000"
    by (simp add: trial_latency_def m)
  have ms: "measurements (\<lambda>i. methods_of dead_probe) = [3000, 3000, 3000]"
    by (simp only: measurements_three t)
  have mean: "fl (js_sum (measurements (\<lambda>i. methods_of dead_probe)) / 3) = 3000"
    by (simp only: ms js_sum3 fl_3000s)
  have r: "js_round 3000 = 3000"
    by (simp add: js_round_def)
  have s: "floor_text 3000 = ''3000''"
    unfolding floor_text_def by code_simp
  have b: "latency_band 3000 = Poor"
    by (simp add: latency_band_def)
  show ?thesis
    using m t
    by (simp add: avgLatency_value measureLatency_text measureLatency_color mean r s b)
qed


subsection \<open>The network information\<close>

lemma handler_notifications:
  "notifications (handleNetworkInfoError (Error m) a) = notifications a @ [(errorMessages m, ''error'')]"
  by (simp add: handleNetworkInfoError_def error_fields_def)

lemma handler_fields:
  "i \<in> set error_fields \<Longrightarrow> textContent (page (handleNetworkInfoError err a) i) = ''Error loading''"
  by (cases err) (auto simp: handleNetworkInfoError_def error_fields_def)

lemma handler_other:
  "i \<notin> set error_fields \<Longrightarrow> textContent (page (handleNetworkInfoError err a) i) = textContent (page a i)"
  by (cases err) (auto simp: handleNetworkInfoError_def error_fields_def)

lemma local_steps_notifications [simp]:
  "notifications (getLocalIP w a) = notifications a"
  "notifications (getNetworkConnectionInfo w a) = notifications a"
  by (simp_all add: getLocalIP_def getLocalIPFallback_def getNetworkConnectionInfo_def
      getNetworkName_def Let_def split: sum.splits option.splits)

lemma try_geo_fails:
  assumes "ip_lookup w = Inr ip" and "geo_lookup w ip = Inl err"
  shows "loadNetworkInfo_try w a =
           Raised err (set_text ''publicIP'' ip
             (getNetworkConnectionInfo w
               (getLocalIP w (showStatus ''Loading network information...'' ''info'' a))))"
  using assms by (simp add: loadNetworkInfo_try_def Let_def)

text \<open>
  C2, as the code has it. When the public address is found and the lookup of its
  location fails, \<^verbatim>\<open>loadNetworkInfo\<close> does not throw. The address has been written to
  the page when the lookup fails. Two notifications are shown, the one that announces
  the loading and exactly one of type \<^verbatim>\<open>error\<close>. The handler then writes
  \<^verbatim>\<open>Error loading\<close> into all eight fields of its list, the public address and the
  fields of the earlier steps among them.
\<close>

theorem geolocation_failure_overwrites_fields:
  assumes "ip_lookup w = Inr ip" and "geo_lookup w ip = Inl (Error m)"
  shows "(\<exists>a'. loadNetworkInfo_try w a = Raised (Error m) a'
              \<and> textContent (page a' ''publicIP'') = ip
              \<and> loadNetworkInfo w a = handleNetworkInfoError (Error m) a')
       \<and> notifications (loadNetworkInfo w a) =
           notifications a @ [(''Loading network information...'', ''info''),
                              (errorMessages m, ''error'')]
       \<and> list_all (\<lambda>i. textContent (page (loadNetworkInfo w a) i) = ''Error loading'')
           [''publicIP'', ''location'', ''isp'', ''localIP'', ''networkName'',
            ''connectionSpeed'', ''signalStrength'', ''networkQuality'']"
proof -
  let ?a' = "set_text ''publicIP'' ip
             (getNetworkConnectionInfo w
               (getLocalIP w (showStatus ''Loading network information...'' ''info'' a)))"
  have t: "loadNetworkInfo_try w a = Raised (Error m) ?a'"
    by (rule try_geo_fails[OF assms])
  then have l: "loadNetworkInfo w a = handleNetworkInfoError (Error m) ?a'"
    by (simp add: loadNetworkInfo_def)
  have n: "notifications (loadNetworkInfo w a) =
           notifications a @ [(''Loading network information...'', ''info''),
                              (errorMessages m, ''error'')]"
    by (simp add: l handler_notifications)
  have f: "list_all (\<lambda>i. textContent (page (loadNetworkInfo w a) i) = ''Error loading'')
           [''publicIP'', ''location'', ''isp'', ''localIP'', ''networkName'',
            ''connectionSpeed'', ''signalStrength'', ''networkQuality'']"
    unfolding l by (simp add: handler_fields error_fields_def)
  show ?thesis
    using t l n f by simp
qed

theorem geolocation_failure_overwrites_fields_witness:
  "ip_lookup geo_timeout_world = Inr ''203.0.113.7''
   \<and> geo_lookup geo_timeout_world ''203.0.113.7'' = Inl (Error ''timeout'')
   \<and> (\<exists>a'. loadNetworkInfo_try geo_timeout_world initial = Raised (Error ''timeout'') a'
              \<and> textContent (page a' ''publicIP'') = ''203.0.113.7''
              \<and> loadNetworkInfo geo_timeout_world initial = handleNetworkInfoError (Error ''timeout'') a')
   \<and> notifications (loadNetworkInfo geo_timeout_world initial) =
           [(''Loading network information...'', ''info''),
            (''Request timed out - please try again'', ''error'')]
   \<and> list_all (\<lambda>i. textContent (page (loadNetworkInfo geo_timeout_world initial) i) = ''Error loading'')
           [''publicIP'', ''location'', ''isp'', ''localIP'', ''networkName'',
            ''connectionSpeed'', ''signalStrength'', ''networkQuality'']"
proof -
  have i: "ip_lookup geo_timeout_world = Inr ''203.0.113.7''"
    and g: "geo_lookup geo_timeout_world ''203.0.113.7'' = Inl (Error ''timeout'')"
    by (simp_all add: geo_timeout_world_def)
  have n: "notifications initial = []"
    by (simp add: initial_def)
  have e: "errorMessages ''timeout'' = ''Request timed out - please try again''"
    by (simp add: errorMessages_def)
  show ?thesis
    using i g geolocation_failure_overwrites_fields[OF i g, of initial]
    by (simp add: n e)
qed

text \<open>
  C2, as the claim has it, fails: the public address 203.0.113.7 and the local address
  192.168.1.23 are on the page when the lookup of the location times out, and after the
  operation both fields read \<^verbatim>\<open>Error loading\<close>.
\<close>

theorem geolocation_failure_blanks_public_ip:
  "ip_lookup geo_timeout_world = Inr ''203.0.113.7''
   \<and> geo_lookup geo_timeout_world ''203.0.113.7'' = Inl (Error ''timeout'')
   \<and> (case loadNetworkInfo_try geo_timeout_world initial of
         Done a' \<Rightarrow> False
       | Raised err a' \<Rightarrow> textContent (page a' ''publicIP'') = ''203.0.113.7''
                        \<and> textContent (page a' ''localIP'') = ''192.168.1.23'')
   \<and> textContent (page (loadNetworkInfo geo_timeout_world initial) ''publicIP'') = ''Error loading''
   \<and> textContent (page (loadNetworkInfo geo_timeout_world initial) ''publicIP'') \<noteq> ''203.0.113.7''
   \<and> textContent (page (loadNetworkInfo geo_timeout_world initial) ''localIP'') = ''Error loading''"
proof -
  have i: "ip_lookup geo_timeout_world = Inr ''203.0.113.7''"
    and g: "geo_lookup geo_timeout_world ''203.0.113.7'' = Inl (Error ''timeout'')"
    by (simp_all add: geo_timeout_world_def)
  have p: "local_ip_promise geo_timeout_world = Inr ''192.168.1.23''"
    by (simp add: local_ip_promise_def geo_timeout_world_def startsWith_def)
  have c: "connection_of geo_timeout_world = None"
    by (simp add: connection_of_def geo_timeout_world_def)
  have t: "loadNetworkInfo_try geo_timeout_world initial =
      Raised (Error ''timeout'') (set_text ''publicIP'' ''203.0.113.7''
             (getNetworkConnectionInfo geo_timeout_world
               (getLocalIP geo_timeout_world
                 (showStatus ''Loading network information...'' ''info'' initial))))"
    by (rule try_geo_fails[OF i g])
  have l: "loadNetworkInfo geo_timeout_world initial =
      handleNetworkInfoError (Error ''timeout'') (set_text ''publicIP'' ''203.0.113.7''
             (getNetworkConnectionInfo geo_timeout_world
               (getLocalIP geo_timeout_world
                 (showStatus ''Loading network information...'' ''info'' initial))))"
    by (simp add: loadNetworkInfo_def t)
  have before: "textContent (page (set_text ''publicIP'' ''203.0.113.7''
             (getNetworkConnectionInfo geo_timeout_world
               (getLocalIP geo_timeout_world
                 (showStatus ''Loading network information...'' ''info'' initial)))) ''localIP'')
        = ''192.168.1.23''"
    by (simp add: getNetworkConnectionInfo_def getLocalIP_def p c Let_def)
  have after: "textContent (page (loadNetworkInfo geo_timeout_world initial) ''publicIP'') = ''Error loading''"
    "textContent (page (loadNetworkInfo geo_timeout_world initial) ''localIP'') = ''Error loading''"
    unfolding l by (simp_all add: handler_fields error_fields_def)
  show ?thesis
    using i g before after by (simp add: t)
qed


end
